theory Spec2Isabelle
  imports Complex_Main
begin

section \<open>Values, errors and tensors\<close>

text \<open>
  The embedding follows \<^verbatim>\<open>yolov6/models/losses/loss.py\<close>. Network outputs and
  ground-truth numbers are finite reals; rounding and overflow of the floating-point
  formats are not modelled. A raised Python exception is the \<open>Inl\<close> branch of a sum.
  \<open>OutOfMemoryError\<close> is \<^verbatim>\<open>torch.cuda.OutOfMemoryError\<close>, a subclass of
  \<^verbatim>\<open>RuntimeError\<close>; \<open>RuntimeError\<close> stands for every other runtime error (a
  shape or device mismatch, an unsafe operation under autocast); the remaining
  constructors are exceptions outside that hierarchy.
\<close>

datatype exn = OutOfMemoryError | RuntimeError | IndexError | ValueError | AssertionError

text \<open>What the clause \<^verbatim>\<open>except RuntimeError:\<close> catches.\<close>

fun is_RuntimeError :: "exn \<Rightarrow> bool" where
  "is_RuntimeError OutOfMemoryError = True"
| "is_RuntimeError RuntimeError = True"
| "is_RuntimeError IndexError = False"
| "is_RuntimeError ValueError = False"
| "is_RuntimeError AssertionError = False"

text \<open>
  A tensor carries the device it lives on and its element type beside its data. The data
  are nested lists of the tensor's shape; a last axis of length 4 is a tuple. The
  element-wise operations below are written for operands of matching shape on one
  device, which is what the anchor generator and the network head deliver; broadcasting
  errors are not modelled.
\<close>

datatype device = Cuda | Cpu

datatype dtype = Float16 | BFloat16 | Float32 | Float64

record 'a tensor =
  dev :: device
  dty :: dtype
  dat :: 'a

definition cpu :: "'a tensor \<Rightarrow> 'a tensor" where
  "cpu t = t\<lparr>dev := Cpu\<rparr>"

definition cuda :: "'a tensor \<Rightarrow> 'a tensor" where
  "cuda t = t\<lparr>dev := Cuda\<rparr>"

text \<open>\<^verbatim>\<open>.float()\<close> casts to single precision.\<close>

definition float :: "'a tensor \<Rightarrow> 'a tensor" where
  "float t = t\<lparr>dty := Float32\<rparr>"

text \<open>\<^verbatim>\<open>.detach()\<close> cuts the gradient graph and leaves device, type and data alone.\<close>

definition detach :: "'a tensor \<Rightarrow> 'a tensor" where
  "detach t = t"

text \<open>The result type of an arithmetic operation on two floating tensors.\<close>

fun promote :: "dtype \<Rightarrow> dtype \<Rightarrow> dtype" where
  "promote Float64 _ = Float64"
| "promote _ Float64 = Float64"
| "promote Float32 _ = Float32"
| "promote _ Float32 = Float32"
| "promote Float16 Float16 = Float16"
| "promote BFloat16 BFloat16 = BFloat16"
| "promote Float16 BFloat16 = Float32"
| "promote BFloat16 Float16 = Float32"

text \<open>
  A scalar that a division may have produced: \<open>NonFinite\<close> is NaN or an infinity.
  Dividing by zero gives a non-finite value and raises nothing; multiplying a
  non-finite value by a finite one, or adding anything to it, stays non-finite.
\<close>

datatype fval = Fin real | NonFinite

fun fdiv :: "fval \<Rightarrow> real \<Rightarrow> fval" where
  "fdiv (Fin a) s = (if s = 0 then NonFinite else Fin (a / s))"
| "fdiv NonFinite s = NonFinite"

fun fscale :: "real \<Rightarrow> fval \<Rightarrow> fval" where
  "fscale c (Fin a) = Fin (c * a)"
| "fscale c NonFinite = NonFinite"

fun fadd :: "fval \<Rightarrow> fval \<Rightarrow> fval" where
  "fadd (Fin a) (Fin b) = Fin (a + b)"
| "fadd _ _ = NonFinite"

fun is_finite :: "fval \<Rightarrow> bool" where
  "is_finite (Fin a) = True"
| "is_finite NonFinite = False"

text \<open>\<^verbatim>\<open>.mean()\<close> of a one-dimensional tensor: the mean of an empty one is NaN.\<close>

definition mean :: "real list \<Rightarrow> fval" where
  "mean xs = fdiv (Fin (sum_list xs)) (real (length xs))"

fun fsum :: "fval list \<Rightarrow> fval" where
  "fsum [] = Fin 0"
| "fsum (x # xs) = fadd x (fsum xs)"

definition fmean :: "fval list \<Rightarrow> fval" where
  "fmean xs = fdiv (fsum xs) (real (length xs))"

section \<open>Target preprocessing\<close>

text \<open>
  One row of the flat target tensor of shape \<open>(n, 6)\<close>:
  \<^verbatim>\<open>(image_index, class, cx, cy, w, h)\<close>.
\<close>

record gt_row =
  image_index :: real
  cls :: real
  cx :: real
  cy :: real
  w :: real
  h :: real

text \<open>A row of the padded tensor of shape \<open>(N, M, 5)\<close>: a class and four numbers.\<close>

type_synonym box = "real \<times> real \<times> real \<times> real"
type_synonym row5 = "real \<times> box"

text \<open>\<^verbatim>\<open>int(item[0])\<close> on a Python float rounds toward zero.\<close>

definition py_int :: "real \<Rightarrow> int" where
  "py_int x = (if 0 \<le> x then \<lfloor>x\<rfloor> else \<lceil>x\<rceil>)"

text \<open>
  Indexing a Python list of length \<open>n\<close>: a negative index counts from the end, an
  index out of range raises \<^verbatim>\<open>IndexError\<close>.
\<close>

definition list_index :: "nat \<Rightarrow> int \<Rightarrow> exn + nat" where
  "list_index n i =
     (let j = (if i < 0 then int n + i else i)
      in if 0 \<le> j \<and> j < int n then Inr (nat j) else Inl IndexError)"

text \<open>\<^verbatim>\<open>item[1:]\<close>\<close>

definition item_tail :: "gt_row \<Rightarrow> row5" where
  "item_tail item = (cls item, cx item, cy item, w item, h item)"

text \<open>The image slot a row is appended to.\<close>

definition slot :: "nat \<Rightarrow> gt_row \<Rightarrow> exn + nat" where
  "slot n item = list_index n (py_int (image_index item))"

text \<open>
  The loop \<^verbatim>\<open>for i, item in enumerate(...): targets_list[int(item[0])].append(item[1:])\<close>.
\<close>

fun append_items :: "row5 list list \<Rightarrow> gt_row list \<Rightarrow> exn + row5 list list" where
  "append_items ls [] = Inr ls"
| "append_items ls (item # items) =
     (case slot (length ls) item of
        Inl e \<Rightarrow> Inl e
      | Inr k \<Rightarrow> append_items (ls[k := ls ! k @ [item_tail item]]) items)"

text \<open>Python's \<^verbatim>\<open>max\<close> over a sequence: \<^verbatim>\<open>ValueError\<close> on an empty one.\<close>

fun py_max :: "nat list \<Rightarrow> exn + nat" where
  "py_max [] = Inl ValueError"
| "py_max (x # xs) = Inr (fold max xs x)"

text \<open>
  Modelled from the spec: \<^verbatim>\<open>xywh2xyxy\<close> of \<^verbatim>\<open>yolov6.utils.general\<close> is not
  among the sources. The spec gives it as the exact centre/size to corner transform,
  without clamping.
\<close>

fun xywh2xyxy :: "box \<Rightarrow> box" where
  "xywh2xyxy (x, y, bw, bh) = (x - bw / 2, y - bh / 2, x + bw / 2, y + bh / 2)"

text \<open>\<^verbatim>\<open>targets[:, :, 1:5].mul_(scale_tensor)\<close> on one row; the scale tensor has shape \<open>(1, 4)\<close>.\<close>

fun mul_scale :: "box \<Rightarrow> box \<Rightarrow> box" where
  "mul_scale (a, b, c, d) (s1, s2, s3, s4) = (a * s1, b * s2, c * s3, d * s4)"

definition sentinel_row :: row5 where
  "sentinel_row = (-1, 0, 0, 0, 0)"

text \<open>The last two statements of \<^verbatim>\<open>preprocess\<close> on one row.\<close>

fun to_abs_xyxy :: "box \<Rightarrow> row5 \<Rightarrow> row5" where
  "to_abs_xyxy scale_tensor (c, b) = (c, xywh2xyxy (mul_scale b scale_tensor))"

text \<open>
  \<^verbatim>\<open>ComputeLoss.preprocess\<close> and \<^verbatim>\<open>ComputeLoss1.preprocess\<close> (the two methods have
  the same text). Every image starts with the one zero row of \<^verbatim>\<open>np.zeros\<close>, the
  rows are padded to the longest list, and the slice \<^verbatim>\<open>[:, 1:, :]\<close> drops the first
  row of every image.
\<close>

definition preprocess :: "gt_row list \<Rightarrow> nat \<Rightarrow> box \<Rightarrow> exn + row5 list list" where
  "preprocess targets batch_size scale_tensor =
     (case append_items (replicate batch_size [(0, 0, 0, 0, 0)]) targets of
        Inl e \<Rightarrow> Inl e
      | Inr targets_list \<Rightarrow>
          (case py_max (map length targets_list) of
             Inl e \<Rightarrow> Inl e
           | Inr max_len \<Rightarrow>
               Inr (map (\<lambda>l. map (to_abs_xyxy scale_tensor)
                                (tl (l @ replicate (max_len - length l) sentinel_row)))
                        targets_list)))"

text \<open>\<^verbatim>\<open>gt_labels = targets[:, :, :1]\<close> and \<^verbatim>\<open>gt_bboxes = targets[:, :, 1:]\<close> on one row.\<close>

definition gt_labels_row :: "row5 \<Rightarrow> real" where
  "gt_labels_row r = fst r"

definition gt_bboxes_row :: "row5 \<Rightarrow> box" where
  "gt_bboxes_row r = snd r"

text \<open>\<^verbatim>\<open>mask_gt = (gt_bboxes.sum(-1, keepdim=True) > 0).float()\<close> on one row.\<close>

fun box_sum :: "box \<Rightarrow> real" where
  "box_sum (x1, y1, x2, y2) = x1 + y1 + x2 + y2"

definition mask_gt_row :: "row5 \<Rightarrow> real" where
  "mask_gt_row r = (if box_sum (gt_bboxes_row r) > 0 then 1 else 0)"

text \<open>The rows of image \<open>k\<close> in a flat target list, in their order, and their number.\<close>

definition image_rows :: "nat \<Rightarrow> gt_row list \<Rightarrow> nat \<Rightarrow> gt_row list" where
  "image_rows n targets k = filter (\<lambda>item. slot n item = Inr k) targets"

definition gt_count :: "nat \<Rightarrow> gt_row list \<Rightarrow> nat \<Rightarrow> nat" where
  "gt_count n targets k = length (image_rows n targets k)"

section \<open>Loss terms\<close>

subsection \<open>Varifocal loss\<close>

text \<open>
  \<^verbatim>\<open>F.binary_cross_entropy(input, target, reduction='none')\<close> on one element: the
  library clamps both logarithms at \<open>-100\<close>, also the logarithm of zero.
\<close>

definition clamped_log :: "real \<Rightarrow> real" where
  "clamped_log x = (if x \<le> 0 then - 100 else max (ln x) (- 100))"

definition bce :: "real \<Rightarrow> real \<Rightarrow> real" where
  "bce p t = - (t * clamped_log p + (1 - t) * clamped_log (1 - p))"

text \<open>
  The library call on flattened tensors. It refuses to run in an autocast-enabled region
  and raises when an input element lies outside \<open>[0, 1]\<close>; otherwise it computes in the
  element type of its input.
\<close>

definition binary_cross_entropy ::
  "bool \<Rightarrow> real list tensor \<Rightarrow> real list tensor \<Rightarrow> exn + real list tensor" where
  "binary_cross_entropy autocast_enabled input target =
     (if autocast_enabled then Inl RuntimeError
      else if list_ex (\<lambda>p. p < 0 \<or> 1 < p) (dat input) then Inl RuntimeError
      else Inr \<lparr>dev = dev input, dty = dty input, dat = map2 bce (dat input) (dat target)\<rparr>)"

text \<open>
  \<^verbatim>\<open>with torch.amp.autocast('cuda', enabled=...)\<close>: inside the block the autocast mode
  is the one given, whatever the ambient mode is.
\<close>

definition autocast :: "bool \<Rightarrow> bool \<Rightarrow> bool" where
  "autocast ambient enabled = enabled"

text \<open>
  \<^verbatim>\<open>weight = alpha * pred_score.pow(gamma) * (1 - label) + gt_score * label\<close> on one
  element. The exponent is only ever the default \<open>2.0\<close> and is a natural number here.
\<close>

definition varifocal_weight :: "real \<Rightarrow> nat \<Rightarrow> real \<Rightarrow> real \<Rightarrow> int \<Rightarrow> real" where
  "varifocal_weight alpha gamma p t l = alpha * p ^ gamma * (1 - of_int l) + t * of_int l"

text \<open>The term computed inside the \<^verbatim>\<open>with\<close> block of \<^verbatim>\<open>VarifocalLoss.forward\<close>.\<close>

definition VarifocalLoss_bce ::
  "bool \<Rightarrow> real list tensor \<Rightarrow> real list tensor \<Rightarrow> exn + real list tensor" where
  "VarifocalLoss_bce ambient pred_score gt_score =
     binary_cross_entropy (autocast ambient False) (float pred_score) (float gt_score)"

text \<open>\<^verbatim>\<open>VarifocalLoss.forward\<close> on the three tensors flattened in the same order.\<close>

definition VarifocalLoss_forward ::
  "bool \<Rightarrow> real list tensor \<Rightarrow> real list tensor \<Rightarrow> int list \<Rightarrow> real \<Rightarrow> nat \<Rightarrow> exn + real" where
  "VarifocalLoss_forward ambient pred_score gt_score label alpha gamma =
     (let weight = map (\<lambda>(p, t, l). varifocal_weight alpha gamma p t l)
                       (zip (dat pred_score) (zip (dat gt_score) label))
      in case VarifocalLoss_bce ambient pred_score gt_score of
           Inl e \<Rightarrow> Inl e
         | Inr b \<Rightarrow> Inr (sum_list (map2 (*) (dat b) weight)))"

text \<open>The call \<^verbatim>\<open>self.varifocal_loss(pred_scores, target_scores, one_hot_label)\<close> takes the defaults.\<close>

definition varifocal_loss ::
  "bool \<Rightarrow> real list tensor \<Rightarrow> real list tensor \<Rightarrow> int list \<Rightarrow> exn + real" where
  "varifocal_loss ambient pred_score gt_score label =
     VarifocalLoss_forward ambient pred_score gt_score label (3 / 4) 2"

subsection \<open>Distribution-focal loss\<close>

text \<open>\<^verbatim>\<open>target.to(torch.long)\<close> rounds toward zero, as \<^verbatim>\<open>int()\<close> does.\<close>

definition to_long :: "real \<Rightarrow> int" where
  "to_long t = py_int t"

text \<open>
  \<^verbatim>\<open>F.cross_entropy(input, target, reduction='none')\<close> for one row of logits and
  one class index. The default \<^verbatim>\<open>ignore_index = -100\<close> gives loss 0; any other index
  outside \<open>0 .. C - 1\<close> raises.
\<close>

definition cross_entropy :: "real list \<Rightarrow> int \<Rightarrow> exn + real" where
  "cross_entropy logits c =
     (if c = - 100 then Inr 0
      else if 0 \<le> c \<and> c < int (length logits)
           then Inr (ln (\<Sum>x\<leftarrow>logits. exp x) - logits ! nat c)
      else Inl IndexError)"

text \<open>The body of \<^verbatim>\<open>_df_loss\<close> for one side of one anchor.\<close>

definition df_side :: "real list \<Rightarrow> real \<Rightarrow> exn + real" where
  "df_side logits target =
     (let target_left = to_long target;
          target_right = target_left + 1;
          weight_left = of_int target_right - target;
          weight_right = 1 - weight_left
      in case cross_entropy logits target_left of
           Inl e \<Rightarrow> Inl e
         | Inr loss_left \<Rightarrow>
             (case cross_entropy logits target_right of
                Inl e \<Rightarrow> Inl e
              | Inr loss_right \<Rightarrow> Inr (loss_left * weight_left + loss_right * weight_right)))"

text \<open>The first exception of a sequence of computations, or all their results.\<close>

fun collect :: "(exn + 'a) list \<Rightarrow> exn + 'a list" where
  "collect [] = Inr []"
| "collect (Inl e # rs) = Inl e"
| "collect (Inr x # rs) = (case collect rs of Inl e \<Rightarrow> Inl e | Inr xs \<Rightarrow> Inr (x # xs))"

type_synonym sides = "real list \<times> real list \<times> real list \<times> real list"

text \<open>
  \<^verbatim>\<open>BboxLoss._df_loss\<close> for one positive anchor: the four sides' logits, each of
  \<open>reg_max + 1\<close> entries, and the four target distances; \<^verbatim>\<open>.mean(-1)\<close> averages the
  four sides.
\<close>

fun BboxLoss_df_loss :: "sides \<Rightarrow> box \<Rightarrow> exn + real" where
  "BboxLoss_df_loss (dl, dt, dr, db) (l, t, r, b) =
     (case collect [df_side dl l, df_side dt t, df_side dr r, df_side db b] of
        Inl e \<Rightarrow> Inl e
      | Inr losses \<Rightarrow> Inr (sum_list losses / 4))"

subsection \<open>Box codec\<close>

text \<open>
  Modelled from the spec: \<^verbatim>\<open>dist2bbox\<close> of \<^verbatim>\<open>yolov6.utils.general\<close> is not among
  the sources. The spec: given an anchor point and the distances (left, top, right,
  bottom), the corner box is \<open>(x - left, y - top, x + right, y + bottom)\<close>.
\<close>

fun dist2bbox :: "box \<Rightarrow> real \<times> real \<Rightarrow> box" where
  "dist2bbox (l, t, r, b) (x, y) = (x - l, y - t, x + r, y + b)"

text \<open>\<^verbatim>\<open>tensor.clip(lo, hi)\<close> on one element.\<close>

definition clip :: "real \<Rightarrow> real \<Rightarrow> real \<Rightarrow> real" where
  "clip lo hi x = min (max x lo) hi"

text \<open>
  Modelled from the spec: \<^verbatim>\<open>bbox2dist\<close> of \<^verbatim>\<open>yolov6.utils.general\<close> is not among
  the sources. The spec: the inverse of \<^verbatim>\<open>dist2bbox\<close>, clamped to
  \<open>[0, reg_max - epsilon]\<close>. The spec leaves the epsilon open; it is the first argument.
\<close>

fun bbox2dist :: "real \<Rightarrow> real \<times> real \<Rightarrow> box \<Rightarrow> nat \<Rightarrow> box" where
  "bbox2dist eps (x, y) (x1, y1, x2, y2) rmax =
     (clip 0 (real rmax - eps) (x - x1), clip 0 (real rmax - eps) (y - y1),
      clip 0 (real rmax - eps) (x2 - x), clip 0 (real rmax - eps) (y2 - y))"

text \<open>The four numbers of a box as a list.\<close>

fun box_list :: "box \<Rightarrow> real list" where
  "box_list (a, b, c, d) = [a, b, c, d]"

section \<open>Configuration and collaborators\<close>

text \<open>The construction-time parameters shared by \<^verbatim>\<open>ComputeLoss\<close> and \<^verbatim>\<open>ComputeLoss1\<close>.\<close>

record config =
  fpn_strides :: "real list"
  grid_cell_size :: real
  grid_cell_offset :: real
  num_classes :: nat
  ori_img_size :: real
  warmup_epoch :: int
  use_dfl :: bool
  reg_max :: nat
  loss_weight_class :: real
  loss_weight_iou :: real
  loss_weight_dfl :: real

definition ComputeLoss_defaults :: config where
  "ComputeLoss_defaults =
     \<lparr>fpn_strides = [8, 16, 32], grid_cell_size = 5, grid_cell_offset = 1 / 2,
      num_classes = 80, ori_img_size = 640, warmup_epoch = 4, use_dfl = True, reg_max = 16,
      loss_weight_class = 13 / 10, loss_weight_iou = 7 / 2, loss_weight_dfl = 1 / 2\<rparr>"

definition ComputeLoss1_defaults :: config where
  "ComputeLoss1_defaults =
     \<lparr>fpn_strides = [8, 16, 32], grid_cell_size = 5, grid_cell_offset = 1 / 2,
      num_classes = 80, ori_img_size = 640, warmup_epoch = 4, use_dfl = True, reg_max = 16,
      loss_weight_class = 1, loss_weight_iou = 5 / 2, loss_weight_dfl = 1 / 2\<rparr>"

text \<open>
  The four results of an assigner: \<^verbatim>\<open>target_labels\<close> of shape \<open>(B, A)\<close>,
  \<^verbatim>\<open>target_bboxes\<close> of shape \<open>(B, A, 4)\<close>, \<^verbatim>\<open>target_scores\<close> of shape \<open>(B, A, C)\<close>
  and the boolean \<^verbatim>\<open>fg_mask\<close> of shape \<open>(B, A)\<close>.
\<close>

record assignment =
  target_labels :: "int list list tensor"
  target_bboxes :: "box list list tensor"
  target_scores :: "real list list list tensor"
  fg_mask :: "bool list list tensor"

type_synonym anchor_grid =
  "box list tensor \<times> (real \<times> real) list tensor \<times> nat list \<times> real list tensor"

text \<open>
  The collaborators that are not among the sources, taken as parameters: the anchor
  generator, the two assigners (each may raise), the per-pair IoU loss of
  \<^verbatim>\<open>IOUloss\<close>, the epsilon of \<^verbatim>\<open>bbox2dist\<close>; and the ambient autocast mode of the
  training loop. A feature map counts by its device, element type and spatial shape.
\<close>

record env =
  generate_anchors ::
    "(nat \<times> nat) tensor list \<Rightarrow> real list \<Rightarrow> real \<Rightarrow> real \<Rightarrow> device \<Rightarrow> anchor_grid"
  warmup_assigner ::
    "box list tensor \<Rightarrow> nat list \<Rightarrow> real list list tensor \<Rightarrow> box list list tensor \<Rightarrow>
     real list list tensor \<Rightarrow> box list list tensor \<Rightarrow> exn + assignment"
  formal_assigner ::
    "real list list list tensor \<Rightarrow> box list list tensor \<Rightarrow> (real \<times> real) list tensor \<Rightarrow>
     real list list tensor \<Rightarrow> box list list tensor \<Rightarrow> real list list tensor \<Rightarrow> exn + assignment"
  iou_loss :: "box \<Rightarrow> box \<Rightarrow> real"
  dist_eps :: real
  ambient_autocast :: bool

section \<open>Box loss\<close>

text \<open>\<^verbatim>\<open>torch.masked_select\<close> over the first two axes, rows kept whole.\<close>

definition masked_select :: "bool list list \<Rightarrow> 'a list list \<Rightarrow> 'a list" where
  "masked_select fg xs = map snd (filter fst (zip (concat fg) (concat xs)))"

text \<open>\<^verbatim>\<open>fg_mask.sum()\<close>\<close>

definition num_pos :: "bool list list \<Rightarrow> nat" where
  "num_pos fg = length (filter id (concat fg))"

text \<open>
  \<^verbatim>\<open>.reshape([-1, 4, reg_max + 1])\<close> of one anchor's distribution logits; a row of
  another length does not fit the fg or the view.
\<close>

definition view4 :: "nat \<Rightarrow> real list \<Rightarrow> exn + sides" where
  "view4 rmax v =
     (let n = rmax + 1
      in if length v = 4 * n
         then Inr (take n v, take n (drop n v), take n (drop (2 * n) v), take n (drop (3 * n) v))
         else Inl RuntimeError)"

text \<open>
  The two normalisations in \<^verbatim>\<open>BboxLoss.forward\<close>:
  \<^verbatim>\<open>if target_scores_sum > 1: loss = loss.sum() / target_scores_sum else: loss = loss.sum()\<close>.
\<close>

definition BboxLoss_normalize :: "real list \<Rightarrow> real \<Rightarrow> fval" where
  "BboxLoss_normalize loss target_scores_sum =
     (if target_scores_sum > 1 then fdiv (Fin (sum_list loss)) target_scores_sum
      else Fin (sum_list loss))"

text \<open>\<^verbatim>\<open>pred_dist.sum() * 0.\<close>\<close>

definition zero_loss :: "real list list list \<Rightarrow> fval" where
  "zero_loss pred_dist = Fin (sum_list (concat (concat pred_dist)) * 0)"

text \<open>The distribution-focal branch of \<^verbatim>\<open>BboxLoss.forward\<close> (lines 496 to 511).\<close>

definition BboxLoss_dfl ::
  "config \<Rightarrow> env \<Rightarrow> real list list list \<Rightarrow> (real \<times> real) list \<Rightarrow> box list list \<Rightarrow>
   real list \<Rightarrow> real \<Rightarrow> bool list list \<Rightarrow> exn + fval" where
  "BboxLoss_dfl cfg ev pred_dist anchor_pts target_bbs bbox_weight target_scores_sum fg =
     (if use_dfl cfg then
        (case collect (map (view4 (reg_max cfg)) (masked_select fg pred_dist)) of
           Inl e \<Rightarrow> Inl e
         | Inr pred_dist_pos \<Rightarrow>
             (let target_ltrb =
                    map (\<lambda>img. map2 (\<lambda>p b. bbox2dist (dist_eps ev) p b (reg_max cfg)) anchor_pts img)
                        target_bbs;
                  target_ltrb_pos = masked_select fg target_ltrb
              in case collect (map2 BboxLoss_df_loss pred_dist_pos target_ltrb_pos) of
                   Inl e \<Rightarrow> Inl e
                 | Inr losses \<Rightarrow>
                     Inr (BboxLoss_normalize (map2 (*) losses bbox_weight) target_scores_sum)))
      else Inr (zero_loss pred_dist))"

text \<open>
  \<^verbatim>\<open>BboxLoss.forward\<close>. The arguments are the data of the tensors
  \<^verbatim>\<open>pred_dist\<close> \<open>(B, A, 4 (reg_max + 1))\<close>, \<^verbatim>\<open>pred_bboxes\<close> \<open>(B, A, 4)\<close>,
  \<^verbatim>\<open>anchor_points\<close> \<open>(A, 2)\<close>, \<^verbatim>\<open>target_bboxes\<close>, \<^verbatim>\<open>target_scores\<close>
  \<open>(B, A, C)\<close>, the scalar \<^verbatim>\<open>target_scores_sum\<close> and \<^verbatim>\<open>fg_mask\<close>. The result is
  the pair \<^verbatim>\<open>(loss_iou, loss_dfl)\<close>.
\<close>

definition BboxLoss_forward ::
  "config \<Rightarrow> env \<Rightarrow> real list list list \<Rightarrow> box list list \<Rightarrow> (real \<times> real) list \<Rightarrow>
   box list list \<Rightarrow> real list list list \<Rightarrow> real \<Rightarrow> bool list list \<Rightarrow> exn + fval \<times> fval" where
  "BboxLoss_forward cfg ev pred_dist pred_bbs anchor_pts target_bbs target_scs target_scores_sum fg =
     (if num_pos fg > 0 then
        (let pred_bboxes_pos = masked_select fg pred_bbs;
             target_bboxes_pos = masked_select fg target_bbs;
             bbox_weight = masked_select fg (map (map sum_list) target_scs);
             loss_iou = BboxLoss_normalize
                          (map2 (*) (map2 (iou_loss ev) pred_bboxes_pos target_bboxes_pos) bbox_weight)
                          target_scores_sum
         in case BboxLoss_dfl cfg ev pred_dist anchor_pts target_bbs bbox_weight
                   target_scores_sum fg of
              Inl e \<Rightarrow> Inl e
            | Inr loss_dfl \<Rightarrow> Inr (loss_iou, loss_dfl))
      else Inr (zero_loss pred_dist, zero_loss pred_dist))"

section \<open>The loss composer\<close>

subsection \<open>Anchors, targets and decoded boxes\<close>

text \<open>The local variables of \<^verbatim>\<open>__call__\<close> when the assignment starts.\<close>

record step_locals =
  anchors :: "box list tensor"
  anchor_points :: "(real \<times> real) list tensor"
  n_anchors_list :: "nat list"
  stride_tensor :: "real list tensor"
  pred_scores :: "real list list list tensor"
  pred_distri :: "real list list list tensor"
  gt_labels :: "real list list tensor"
  gt_bboxes :: "box list list tensor"
  mask_gt :: "real list list tensor"
  anchor_points_s :: "(real \<times> real) list tensor"
  pred_bboxes :: "box list list tensor"

text \<open>\<^verbatim>\<open>anchor_points / stride_tensor\<close>\<close>

definition div_points :: "(real \<times> real) list tensor \<Rightarrow> real list tensor \<Rightarrow> (real \<times> real) list tensor" where
  "div_points pts st =
     \<lparr>dev = dev pts, dty = promote (dty pts) (dty st),
      dat = map2 (\<lambda>(x, y) s. (x / s, y / s)) (dat pts) (dat st)\<rparr>"

fun box_times :: "box \<Rightarrow> real \<Rightarrow> box" where
  "box_times (x1, y1, x2, y2) s = (x1 * s, y1 * s, x2 * s, y2 * s)"

fun box_over :: "box \<Rightarrow> real \<Rightarrow> box" where
  "box_over (x1, y1, x2, y2) s = (x1 / s, y1 / s, x2 / s, y2 / s)"

text \<open>\<^verbatim>\<open>pred_bboxes * stride_tensor\<close>, shapes \<open>(B, A, 4)\<close> and \<open>(A, 1)\<close>.\<close>

definition mul_stride :: "box list list tensor \<Rightarrow> real list tensor \<Rightarrow> box list list tensor" where
  "mul_stride bbs st =
     \<lparr>dev = dev bbs, dty = promote (dty bbs) (dty st),
      dat = map (\<lambda>img. map2 box_times img (dat st)) (dat bbs)\<rparr>"

text \<open>\<^verbatim>\<open>target_bboxes /= stride_tensor\<close>, in place: device and type stay.\<close>

definition div_stride :: "box list list tensor \<Rightarrow> real list tensor \<Rightarrow> box list list tensor" where
  "div_stride bbs st = bbs\<lparr>dat := map (\<lambda>img. map2 box_over img (dat st)) (dat bbs)\<rparr>"

definition softmax :: "real list \<Rightarrow> real list" where
  "softmax xs = map (\<lambda>x. exp x / (\<Sum>y\<leftarrow>xs. exp y)) xs"

text \<open>\<^verbatim>\<open>self.proj = torch.linspace(0, reg_max, reg_max + 1)\<close>\<close>

definition proj :: "nat \<Rightarrow> real list" where
  "proj rmax = map real [0..<rmax + 1]"

definition matmul :: "real list \<Rightarrow> real list \<Rightarrow> real" where
  "matmul xs ys = sum_list (map2 (*) xs ys)"

text \<open>\<^verbatim>\<open>bbox_decode\<close> for one anchor of one image.\<close>

definition bbox_decode_anchor :: "config \<Rightarrow> real \<times> real \<Rightarrow> real list \<Rightarrow> exn + box" where
  "bbox_decode_anchor cfg p v =
     (if use_dfl cfg then
        (case view4 (reg_max cfg) v of
           Inl e \<Rightarrow> Inl e
         | Inr (dl, dt, dr, db) \<Rightarrow>
             Inr (dist2bbox (matmul (softmax dl) (proj (reg_max cfg)),
                             matmul (softmax dt) (proj (reg_max cfg)),
                             matmul (softmax dr) (proj (reg_max cfg)),
                             matmul (softmax db) (proj (reg_max cfg))) p))
      else (case v of [l, t, r, b] \<Rightarrow> Inr (dist2bbox (l, t, r, b) p) | _ \<Rightarrow> Inl RuntimeError))"

text \<open>\<^verbatim>\<open>ComputeLoss.bbox_decode\<close> and \<^verbatim>\<open>ComputeLoss1.bbox_decode\<close> (the same text).\<close>

definition bbox_decode ::
  "config \<Rightarrow> (real \<times> real) list tensor \<Rightarrow> real list list list tensor \<Rightarrow> exn + box list list tensor" where
  "bbox_decode cfg pts pred_dist =
     (case collect (map (\<lambda>img. collect (map2 (bbox_decode_anchor cfg) (dat pts) img)) (dat pred_dist)) of
        Inl e \<Rightarrow> Inl e
      | Inr bbs \<Rightarrow> Inr \<lparr>dev = dev pred_dist, dty = promote (dty pred_dist) (dty pts), dat = bbs\<rparr>)"

text \<open>
  Lines 59 to 76 of \<^verbatim>\<open>ComputeLoss.__call__\<close> and lines 321 to 337 of
  \<^verbatim>\<open>ComputeLoss1.__call__\<close>, which have the same text: the anchors, the assertion on
  the tensor types, the padded targets with their mask, and the decoded boxes. The
  padded targets come from a NumPy array of doubles.
\<close>

definition loss_prepare ::
  "config \<Rightarrow> env \<Rightarrow>
   (nat \<times> nat) tensor list \<times> real list list list tensor \<times> real list list list tensor \<Rightarrow>
   gt_row list tensor \<Rightarrow> exn + step_locals" where
  "loss_prepare cfg ev outputs targets =
     (case outputs of (feats, pd_scores, pd_distri) \<Rightarrow>
        (case feats of
           [] \<Rightarrow> Inl IndexError
         | f0 # _ \<Rightarrow>
             (case generate_anchors ev feats (fpn_strides cfg) (grid_cell_size cfg)
                     (grid_cell_offset cfg) (dev f0) of
                (anc, anc_points, n_anc_list, strides) \<Rightarrow>
                  if (dev pd_scores, dty pd_scores) \<noteq> (dev pd_distri, dty pd_distri)
                  then Inl AssertionError
                  else
                    (let gt_bboxes_scale = (ori_img_size cfg, ori_img_size cfg,
                                            ori_img_size cfg, ori_img_size cfg);
                         batch_size = length (dat pd_scores)
                     in case preprocess (dat targets) batch_size gt_bboxes_scale of
                          Inl e \<Rightarrow> Inl e
                        | Inr rows \<Rightarrow>
                            (let anc_points_s = div_points anc_points strides
                             in case bbox_decode cfg anc_points_s pd_distri of
                                  Inl e \<Rightarrow> Inl e
                                | Inr pd_bboxes \<Rightarrow>
                                    Inr \<lparr>anchors = anc, anchor_points = anc_points,
                                         n_anchors_list = n_anc_list, stride_tensor = strides,
                                         pred_scores = pd_scores, pred_distri = pd_distri,
                                         gt_labels = \<lparr>dev = dev targets, dty = Float64,
                                                       dat = map (map gt_labels_row) rows\<rparr>,
                                         gt_bboxes = \<lparr>dev = dev targets, dty = Float64,
                                                       dat = map (map gt_bboxes_row) rows\<rparr>,
                                         mask_gt = \<lparr>dev = dev targets, dty = Float32,
                                                     dat = map (map mask_gt_row) rows\<rparr>,
                                         anchor_points_s = anc_points_s,
                                         pred_bboxes = pd_bboxes\<rparr>)))))"

subsection \<open>Assignment with the host-memory retry\<close>

text \<open>
  What a step does beside computing: calls to the two assigners, the two printed
  diagnostics and the release of the accelerator cache, in the order they happen.
\<close>

datatype assigner_kind = Warmup | Formal

datatype event = Invoke assigner_kind | Print | EmptyCache

text \<open>The body of the \<^verbatim>\<open>try\<close> (lines 79 to 96, and 340 to 357).\<close>

definition assign_primary ::
  "config \<Rightarrow> env \<Rightarrow> int \<Rightarrow> step_locals \<Rightarrow> event list \<times> (exn + assignment)" where
  "assign_primary cfg ev epoch_num lc =
     (if epoch_num < warmup_epoch cfg then
        ([Invoke Warmup],
         warmup_assigner ev (anchors lc) (n_anchors_list lc) (gt_labels lc) (gt_bboxes lc)
           (mask_gt lc) (mul_stride (detach (pred_bboxes lc)) (stride_tensor lc)))
      else
        ([Invoke Formal],
         formal_assigner ev (detach (pred_scores lc))
           (mul_stride (detach (pred_bboxes lc)) (stride_tensor lc))
           (anchor_points lc) (gt_labels lc) (gt_bboxes lc) (mask_gt lc)))"

text \<open>The two branches of the handler (lines 106 to 140, and 367 to 401).\<close>

definition assign_host ::
  "config \<Rightarrow> env \<Rightarrow> int \<Rightarrow> step_locals \<Rightarrow> event list \<times> (exn + assignment)" where
  "assign_host cfg ev epoch_num lc =
     (if epoch_num < warmup_epoch cfg then
        ([Invoke Warmup],
         warmup_assigner ev (float (cpu (anchors lc))) (n_anchors_list lc)
           (float (cpu (gt_labels lc))) (float (cpu (gt_bboxes lc))) (float (cpu (mask_gt lc)))
           (mul_stride (float (cpu (detach (pred_bboxes lc)))) (float (cpu (stride_tensor lc)))))
      else
        ([Invoke Formal],
         formal_assigner ev (float (cpu (detach (pred_scores lc))))
           (mul_stride (float (cpu (detach (pred_bboxes lc)))) (float (cpu (stride_tensor lc))))
           (float (cpu (anchor_points lc))) (float (cpu (gt_labels lc)))
           (float (cpu (gt_bboxes lc))) (float (cpu (mask_gt lc)))))"

text \<open>Lines 142 to 145: the four results go to the accelerator.\<close>

definition to_cuda :: "assignment \<Rightarrow> assignment" where
  "to_cuda a =
     \<lparr>target_labels = cuda (target_labels a), target_bboxes = cuda (target_bboxes a),
      target_scores = cuda (target_scores a), fg_mask = cuda (fg_mask a)\<rparr>"

text \<open>
  The \<^verbatim>\<open>try\<close> statement (lines 78 to 145, and 339 to 406). The handler is entered
  for what \<^verbatim>\<open>except RuntimeError\<close> catches; an exception raised inside the handler
  leaves the call.
\<close>

definition assign_step ::
  "config \<Rightarrow> env \<Rightarrow> int \<Rightarrow> step_locals \<Rightarrow> event list \<times> (exn + assignment)" where
  "assign_step cfg ev epoch_num lc =
     (case assign_primary cfg ev epoch_num lc of
        (evs, Inr a) \<Rightarrow> (evs, Inr a)
      | (evs, Inl e) \<Rightarrow>
          if is_RuntimeError e then
            (case assign_host cfg ev epoch_num lc of
               (evs', Inl e') \<Rightarrow> (evs @ [Print, EmptyCache, Print] @ evs', Inl e')
             | (evs', Inr a) \<Rightarrow> (evs @ [Print, EmptyCache, Print] @ evs', Inr (to_cuda a)))
          else (evs, Inl e))"

text \<open>The assigners a step called, in order.\<close>

fun invocations :: "event list \<Rightarrow> assigner_kind list" where
  "invocations [] = []"
| "invocations (Invoke k # evs) = k # invocations evs"
| "invocations (e # evs) = invocations evs"

text \<open>The assigner that the epoch schedules.\<close>

definition scheduled :: "config \<Rightarrow> int \<Rightarrow> assigner_kind" where
  "scheduled cfg epoch_num = (if epoch_num < warmup_epoch cfg then Warmup else Formal)"

text \<open>
  Lines 59 to 148 of \<^verbatim>\<open>ComputeLoss.__call__\<close> and 321 to 409 of
  \<^verbatim>\<open>ComputeLoss1.__call__\<close>: preparation, assignment, and the release of the cache
  every tenth step.
\<close>

definition loss_front ::
  "config \<Rightarrow> env \<Rightarrow>
   (nat \<times> nat) tensor list \<times> real list list list tensor \<times> real list list list tensor \<Rightarrow>
   gt_row list tensor \<Rightarrow> int \<Rightarrow> int \<Rightarrow> event list \<times> (exn + step_locals \<times> assignment)" where
  "loss_front cfg ev outputs targets epoch_num step_num =
     (case loss_prepare cfg ev outputs targets of
        Inl e \<Rightarrow> ([], Inl e)
      | Inr lc \<Rightarrow>
          (case assign_step cfg ev epoch_num lc of
             (evs, Inl e) \<Rightarrow> (evs, Inl e)
           | (evs, Inr a) \<Rightarrow>
               (evs @ (if step_num mod 10 = 0 then [EmptyCache] else []), Inr (lc, a))))"

subsection \<open>Classification target and loss\<close>

text \<open>
  \<^verbatim>\<open>torch.where(fg_mask > 0, target_labels, torch.full_like(target_labels, num_classes))\<close>
\<close>

definition fill_background :: "nat \<Rightarrow> bool list list \<Rightarrow> int list list \<Rightarrow> int list list" where
  "fill_background n fg labels =
     map2 (map2 (\<lambda>f l. if f then l else int n)) fg labels"

text \<open>
  \<^verbatim>\<open>F.one_hot(label, n)\<close> for one label: a class value that is negative or not
  smaller than \<open>n\<close> raises.
\<close>

definition one_hot :: "int \<Rightarrow> nat \<Rightarrow> exn + int list" where
  "one_hot l n =
     (if l < 0 \<or> int n \<le> l then Inl RuntimeError
      else Inr (map (\<lambda>j. if int j = l then 1 else 0) [0..<n]))"

text \<open>\<^verbatim>\<open>F.one_hot(target_labels.long(), num_classes + 1)[..., :-1]\<close>\<close>

definition one_hot_label :: "nat \<Rightarrow> int list list \<Rightarrow> exn + int list list list" where
  "one_hot_label n labels =
     collect (map (\<lambda>img. collect (map (\<lambda>l. case one_hot l (n + 1) of
                                               Inl e \<Rightarrow> Inl e
                                             | Inr v \<Rightarrow> Inr (butlast v)) img)) labels)"

definition flatten3 :: "'a list list list tensor \<Rightarrow> 'a list tensor" where
  "flatten3 t = \<lparr>dev = dev t, dty = dty t, dat = concat (concat (dat t))\<rparr>"

text \<open>\<^verbatim>\<open>target_scores.sum()\<close>\<close>

definition target_scores_sum :: "assignment \<Rightarrow> real" where
  "target_scores_sum a = sum_list (concat (concat (dat (target_scores a))))"

text \<open>Lines 154 to 156 (and 415 to 417): the classification loss before normalisation.\<close>

definition class_loss :: "config \<Rightarrow> env \<Rightarrow> step_locals \<Rightarrow> assignment \<Rightarrow> exn + real" where
  "class_loss cfg ev lc a =
     (case one_hot_label (num_classes cfg)
             (fill_background (num_classes cfg) (dat (fg_mask a)) (dat (target_labels a))) of
        Inl e \<Rightarrow> Inl e
      | Inr oh \<Rightarrow>
          varifocal_loss (ambient_autocast ev) (flatten3 (pred_scores lc))
            (flatten3 (target_scores a)) (concat (concat oh)))"

text \<open>Lines 161 and 162 of \<^verbatim>\<open>ComputeLoss.__call__\<close>.\<close>

definition ComputeLoss_normalize_cls :: "fval \<Rightarrow> real \<Rightarrow> fval" where
  "ComputeLoss_normalize_cls loss_cls tss = (if tss > 1 then fdiv loss_cls tss else loss_cls)"

text \<open>Lines 422 and 423 of \<^verbatim>\<open>ComputeLoss1.__call__\<close>.\<close>

definition ComputeLoss1_normalize_cls :: "fval \<Rightarrow> real \<Rightarrow> fval" where
  "ComputeLoss1_normalize_cls loss_cls tss = (if tss > 0 then fdiv loss_cls tss else loss_cls)"

text \<open>
  The call of \<^verbatim>\<open>self.bbox_loss\<close> (lines 165 and 166, and 426 and 427), on the target
  boxes rescaled by line 151 (and 412).
\<close>

definition box_losses :: "config \<Rightarrow> env \<Rightarrow> step_locals \<Rightarrow> assignment \<Rightarrow> exn + fval \<times> fval" where
  "box_losses cfg ev lc a =
     BboxLoss_forward cfg ev (dat (pred_distri lc)) (dat (pred_bboxes lc))
       (dat (anchor_points_s lc)) (dat (div_stride (target_bboxes a) (stride_tensor lc)))
       (dat (target_scores a)) (target_scores_sum a) (dat (fg_mask a))"

text \<open>The weighted sum of the three terms.\<close>

definition total_loss :: "config \<Rightarrow> fval \<Rightarrow> fval \<Rightarrow> fval \<Rightarrow> fval" where
  "total_loss cfg loss_cls loss_iou loss_dfl =
     fadd (fadd (fscale (loss_weight_class cfg) loss_cls) (fscale (loss_weight_iou cfg) loss_iou))
          (fscale (loss_weight_dfl cfg) loss_dfl)"

text \<open>The component vector, in the order iou, dfl, class.\<close>

definition loss_components :: "config \<Rightarrow> fval \<Rightarrow> fval \<Rightarrow> fval \<Rightarrow> fval list" where
  "loss_components cfg loss_cls loss_iou loss_dfl =
     [fscale (loss_weight_iou cfg) loss_iou, fscale (loss_weight_dfl cfg) loss_dfl,
      fscale (loss_weight_class cfg) loss_cls]"

subsection \<open>The gating term of \<^verbatim>\<open>ComputeLoss\<close>\<close>

text \<open>
  \<^verbatim>\<open>torch.cat([gd[0].flatten(start_dim=1) for gd in gating_decision], dim=1)\<close>: every
  entry contributes one flattened row per sample. An empty list, or entries with
  different numbers of samples, raise.
\<close>

definition cat_dim1 :: "real list list list \<Rightarrow> exn + real list list" where
  "cat_dim1 gs =
     (case gs of
        [] \<Rightarrow> Inl RuntimeError
      | g # _ \<Rightarrow>
          if list_all (\<lambda>x. length x = length g) gs
          then Inr (map (\<lambda>b. concat (map (\<lambda>x. x ! b) gs)) [0..<length g])
          else Inl RuntimeError)"

text \<open>\<^verbatim>\<open>g_reconstructed.mean(dim=1).mean()\<close>\<close>

definition gating_mean :: "real list list list \<Rightarrow> exn + fval" where
  "gating_mean gs =
     (case cat_dim1 gs of Inl e \<Rightarrow> Inl e | Inr rows \<Rightarrow> Inr (fmean (map mean rows)))"

subsection \<open>The two composers\<close>

text \<open>Lines 150 to 190 of \<^verbatim>\<open>ComputeLoss.__call__\<close>.\<close>

definition ComputeLoss_tail ::
  "config \<Rightarrow> env \<Rightarrow> step_locals \<Rightarrow> assignment \<Rightarrow> real \<Rightarrow> real list list list option \<Rightarrow>
   exn + fval \<times> fval list" where
  "ComputeLoss_tail cfg ev lc a lambda_reg gating_decision =
     (case class_loss cfg ev lc a of
        Inl e \<Rightarrow> Inl e
      | Inr l \<Rightarrow>
          (let loss_cls = ComputeLoss_normalize_cls (Fin l) (target_scores_sum a)
           in case box_losses cfg ev lc a of
                Inl e \<Rightarrow> Inl e
              | Inr (loss_iou, loss_dfl) \<Rightarrow>
                  (let loss = total_loss cfg loss_cls loss_iou loss_dfl;
                       comps = loss_components cfg loss_cls loss_iou loss_dfl
                   in case gating_decision of
                        None \<Rightarrow> Inr (loss, comps)
                      | Some gs \<Rightarrow>
                          (case gating_mean gs of
                             Inl e \<Rightarrow> Inl e
                           | Inr gm \<Rightarrow>
                               (let gating_loss = fscale lambda_reg gm
                                in Inr (fadd loss gating_loss, comps @ [gating_loss]))))))"

text \<open>Lines 411 to 436 of \<^verbatim>\<open>ComputeLoss1.__call__\<close>.\<close>

definition ComputeLoss1_tail ::
  "config \<Rightarrow> env \<Rightarrow> step_locals \<Rightarrow> assignment \<Rightarrow> exn + fval \<times> fval list" where
  "ComputeLoss1_tail cfg ev lc a =
     (case class_loss cfg ev lc a of
        Inl e \<Rightarrow> Inl e
      | Inr l \<Rightarrow>
          (let loss_cls = ComputeLoss1_normalize_cls (Fin l) (target_scores_sum a)
           in case box_losses cfg ev lc a of
                Inl e \<Rightarrow> Inl e
              | Inr (loss_iou, loss_dfl) \<Rightarrow>
                  Inr (total_loss cfg loss_cls loss_iou loss_dfl,
                       loss_components cfg loss_cls loss_iou loss_dfl)))"

text \<open>
  \<^verbatim>\<open>ComputeLoss.__call__(outputs, targets, epoch_num, step_num, lambda_reg, gating_decision)\<close>:
  the events of the step, and the pair of the total loss and the component vector or
  the exception that left the call.
\<close>

definition ComputeLoss_call ::
  "config \<Rightarrow> env \<Rightarrow>
   (nat \<times> nat) tensor list \<times> real list list list tensor \<times> real list list list tensor \<Rightarrow>
   gt_row list tensor \<Rightarrow> int \<Rightarrow> int \<Rightarrow> real \<Rightarrow> real list list list option \<Rightarrow>
   event list \<times> (exn + fval \<times> fval list)" where
  "ComputeLoss_call cfg ev outputs targets epoch_num step_num lambda_reg gating_decision =
     (case loss_front cfg ev outputs targets epoch_num step_num of
        (evs, Inl e) \<Rightarrow> (evs, Inl e)
      | (evs, Inr (lc, a)) \<Rightarrow> (evs, ComputeLoss_tail cfg ev lc a lambda_reg gating_decision))"

text \<open>\<^verbatim>\<open>ComputeLoss1.__call__(outputs, targets, epoch_num, step_num)\<close>\<close>

definition ComputeLoss1_call ::
  "config \<Rightarrow> env \<Rightarrow>
   (nat \<times> nat) tensor list \<times> real list list list tensor \<times> real list list list tensor \<Rightarrow>
   gt_row list tensor \<Rightarrow> int \<Rightarrow> int \<Rightarrow> event list \<times> (exn + fval \<times> fval list)" where
  "ComputeLoss1_call cfg ev outputs targets epoch_num step_num =
     (case loss_front cfg ev outputs targets epoch_num step_num of
        (evs, Inl e) \<Rightarrow> (evs, Inl e)
      | (evs, Inr (lc, a)) \<Rightarrow> (evs, ComputeLoss1_tail cfg ev lc a))"

section \<open>A small concrete step\<close>

text \<open>
  One image, one anchor of stride 8 at the point \<open>(4, 4)\<close>, one class, two bins per side.
  The warmup assigner of this environment runs out of accelerator memory and succeeds
  on the host, where it assigns the anchor to the box; the formal assigner finds no
  positive anchor.
\<close>

text \<open>
  The ground-truth box of the spec's end-to-end scenario: class 3 centred in image 0,
  a fifth of the image wide and high.
\<close>

definition example_row :: gt_row where
  "example_row = \<lparr>image_index = 0, cls = 3, cx = 1/2, cy = 1/2, w = 1/5, h = 1/5\<rparr>"

definition example_cfg :: config where
  "example_cfg = ComputeLoss_defaults\<lparr>fpn_strides := [8], num_classes := 1, reg_max := 1\<rparr>"

definition example_assignment :: assignment where
  "example_assignment =
     \<lparr>target_labels = \<lparr>dev = Cpu, dty = Float32, dat = [[0]]\<rparr>,
      target_bboxes = \<lparr>dev = Cpu, dty = Float32, dat = [[(0, 0, 8, 8)]]\<rparr>,
      target_scores = \<lparr>dev = Cpu, dty = Float32, dat = [[[1 / 2]]]\<rparr>,
      fg_mask = \<lparr>dev = Cpu, dty = Float32, dat = [[True]]\<rparr>\<rparr>"

definition background_assignment :: assignment where
  "background_assignment =
     \<lparr>target_labels = \<lparr>dev = Cuda, dty = Float32, dat = [[1]]\<rparr>,
      target_bboxes = \<lparr>dev = Cuda, dty = Float32, dat = [[(0, 0, 0, 0)]]\<rparr>,
      target_scores = \<lparr>dev = Cuda, dty = Float32, dat = [[[0]]]\<rparr>,
      fg_mask = \<lparr>dev = Cuda, dty = Float32, dat = [[False]]\<rparr>\<rparr>"

definition example_env :: env where
  "example_env =
     \<lparr>generate_anchors = (\<lambda>feats strides cell_size cell_offset d.
          (\<lparr>dev = d, dty = Float32, dat = [(- 16, - 16, 24, 24)]\<rparr>,
           \<lparr>dev = d, dty = Float32, dat = [(4, 4)]\<rparr>,
           [1],
           \<lparr>dev = d, dty = Float32, dat = [8]\<rparr>)),
      warmup_assigner = (\<lambda>anc n_list labels bbs msk pd_bbs.
          if dev pd_bbs = Cuda then Inl OutOfMemoryError else Inr example_assignment),
      formal_assigner = (\<lambda>scores pd_bbs pts labels bbs msk. Inr background_assignment),
      iou_loss = (\<lambda>b1 b2. 1 / 2),
      dist_eps = 1 / 100,
      ambient_autocast = True\<rparr>"

text \<open>The same environment with a warmup assigner that fails for another reason than memory.\<close>

definition mismatch_env :: env where
  "mismatch_env =
     example_env\<lparr>warmup_assigner := (\<lambda>anc n_list labels bbs msk pd_bbs.
          if dev pd_bbs = Cuda then Inl RuntimeError else Inr example_assignment)\<rparr>"

text \<open>And with a warmup assigner that raises an exception that is no runtime error.\<close>

definition invalid_env :: env where
  "invalid_env =
     example_env\<lparr>warmup_assigner := (\<lambda>anc n_list labels bbs msk pd_bbs. Inl ValueError)\<rparr>"

definition example_outputs ::
  "(nat \<times> nat) tensor list \<times> real list list list tensor \<times> real list list list tensor" where
  "example_outputs =
     ([\<lparr>dev = Cuda, dty = Float16, dat = (1, 1)\<rparr>],
      \<lparr>dev = Cuda, dty = Float16, dat = [[[1 / 2]]]\<rparr>,
      \<lparr>dev = Cuda, dty = Float16, dat = [[[0, 0, 0, 0, 0, 0, 0, 0]]]\<rparr>)"

definition example_targets :: "gt_row list tensor" where
  "example_targets = \<lparr>dev = Cuda, dty = Float32, dat = [example_row]\<rparr>"

definition example_locals :: step_locals where
  "example_locals =
     \<lparr>anchors = \<lparr>dev = Cuda, dty = Float32, dat = [(- 16, - 16, 24, 24)]\<rparr>,
      anchor_points = \<lparr>dev = Cuda, dty = Float32, dat = [(4, 4)]\<rparr>,
      n_anchors_list = [1],
      stride_tensor = \<lparr>dev = Cuda, dty = Float32, dat = [8]\<rparr>,
      pred_scores = \<lparr>dev = Cuda, dty = Float16, dat = [[[1 / 2]]]\<rparr>,
      pred_distri = \<lparr>dev = Cuda, dty = Float16, dat = [[[0, 0, 0, 0, 0, 0, 0, 0]]]\<rparr>,
      gt_labels = \<lparr>dev = Cuda, dty = Float64, dat = [[3]]\<rparr>,
      gt_bboxes = \<lparr>dev = Cuda, dty = Float64, dat = [[(256, 256, 384, 384)]]\<rparr>,
      mask_gt = \<lparr>dev = Cuda, dty = Float32, dat = [[1]]\<rparr>,
      anchor_points_s = \<lparr>dev = Cuda, dty = Float32, dat = [(1 / 2, 1 / 2)]\<rparr>,
      pred_bboxes = \<lparr>dev = Cuda, dty = Float32, dat = [[(0, 0, 1, 1)]]\<rparr>\<rparr>"

text \<open>Two half-precision scores with their soft targets, for the Varifocal loss.\<close>

definition example_pred_score :: "real list tensor" where
  "example_pred_score = \<lparr>dev = Cuda, dty = Float16, dat = [1 / 2, 1]\<rparr>"

definition example_gt_score :: "real list tensor" where
  "example_gt_score = \<lparr>dev = Cuda, dty = Float16, dat = [0, 1]\<rparr>"

section \<open>Verified properties\<close>

subsection \<open>Target preprocessing\<close>

lemma list_index_lt: "list_index n i = Inr k \<Longrightarrow> k < n"
  by (auto simp: list_index_def Let_def split: if_splits)

lemma slot_lt: "slot n item = Inr k \<Longrightarrow> k < n"
  unfolding slot_def by (rule list_index_lt)

lemma append_items_spec:
  "append_items ls items = Inr ls' \<Longrightarrow>
     length ls' = length ls \<and>
     (\<forall>k<length ls. ls' ! k = ls ! k @ map item_tail (image_rows (length ls) items k))"
proof (induction items arbitrary: ls)
  case Nil
  then show ?case by (simp add: image_rows_def)
next
  case (Cons item items)
  from Cons.prems obtain j where j: "slot (length ls) item = Inr j"
    and rest: "append_items (ls[j := ls ! j @ [item_tail item]]) items = Inr ls'"
    by (auto split: sum.splits)
  have jl: "j < length ls" using j by (rule slot_lt)
  from Cons.IH[OF rest] have len: "length ls' = length ls"
    and ih: "\<forall>k<length ls. ls' ! k = (ls[j := ls ! j @ [item_tail item]]) ! k @ map item_tail (image_rows (length ls) items k)"
    by simp_all
  show ?case
  proof (intro conjI allI impI)
    show "length ls' = length ls" by (rule len)
  next
    fix k assume k: "k < length ls"
    show "ls' ! k = ls ! k @ map item_tail (image_rows (length ls) (item # items) k)"
      using ih k j jl by (cases "k = j") (auto simp: image_rows_def)
  qed
qed

lemma append_items_total:
  "(\<forall>item\<in>set items. \<exists>k. slot (length ls) item = Inr k) \<Longrightarrow> \<exists>ls'. append_items ls items = Inr ls'"
proof (induction items arbitrary: ls)
  case Nil then show ?case by simp
next
  case (Cons item items)
  then obtain k where k: "slot (length ls) item = Inr k" by auto
  have "\<exists>ls'. append_items (ls[k := ls ! k @ [item_tail item]]) items = Inr ls'"
    using Cons.prems by (intro Cons.IH) simp
  then show ?case using k by simp
qed

lemma fold_max_ge: "(x::nat) \<le> fold max xs x"
  by (induction xs arbitrary: x) (auto intro: order_trans[OF max.cobounded2])

lemma fold_max_upper: "y \<in> set xs \<Longrightarrow> (y::nat) \<le> fold max xs x"
proof (induction xs arbitrary: x)
  case Nil then show ?case by simp
next
  case (Cons a xs)
  show ?case
  proof (cases "y = a")
    case True
    have "a \<le> max a x" by simp
    also have "\<dots> \<le> fold max xs (max a x)" by (rule fold_max_ge)
    finally show ?thesis using True by simp
  next
    case False
    with Cons.prems have "y \<in> set xs" by simp
    from Cons.IH[OF this] show ?thesis by simp
  qed
qed

lemma fold_max_mem: "fold max xs (x::nat) \<in> insert x (set xs)"
proof (induction xs arbitrary: x)
  case Nil then show ?case by simp
next
  case (Cons a xs)
  have "fold max xs (max a x) \<in> insert (max a x) (set xs)" by (rule Cons.IH)
  moreover have "max a x = a \<or> max a x = x" by (simp add: max_def)
  ultimately show ?case by auto
qed

lemma py_max_spec:
  "py_max xs = Inr m \<Longrightarrow> (\<forall>y\<in>set xs. y \<le> m) \<and> m \<in> set xs"
proof (cases xs)
  case Nil then show "py_max xs = Inr m \<Longrightarrow> ?thesis" by simp
next
  case (Cons a as)
  assume "py_max xs = Inr m"
  with Cons have m: "m = fold max as a" by simp
  show ?thesis using Cons m fold_max_ge[of a as] fold_max_upper[of _ as a] fold_max_mem[of as a] by auto
qed

lemma to_abs_xyxy_sentinel: "to_abs_xyxy scale_tensor sentinel_row = sentinel_row"
  by (cases scale_tensor) (simp add: sentinel_row_def)

text \<open>
  Claim C5, as amended. For a batch of \<open>N > 0\<close> images whose target rows all name an
  image of the batch, \<^verbatim>\<open>preprocess\<close> returns \<open>N\<close> lists of one common length \<open>M\<close>,
  the largest number of rows of any image. Image \<open>k\<close> holds its own rows in their order,
  each as the class followed by the scaled box in corner form, and then \<open>M - g\<^sub>k\<close>
  sentinel rows. An image without rows therefore gets \<open>M\<close> sentinel rows, which is none
  when no image of the batch has a row.
\<close>

theorem preprocess_padded_rows:
  assumes "0 < N" and "\<forall>item\<in>set targets. \<exists>k. slot N item = Inr k"
  shows "\<exists>out M. preprocess targets N scale_tensor = Inr out \<and> length out = N \<and>
           (\<forall>k<N. gt_count N targets k \<le> M) \<and> (\<exists>k<N. gt_count N targets k = M) \<and>
           (\<forall>k<N. out ! k =
              map (\<lambda>item. to_abs_xyxy scale_tensor (item_tail item)) (image_rows N targets k)
              @ replicate (M - gt_count N targets k) sentinel_row)"
proof -
  let ?z = "(0, 0, 0, 0, 0) :: row5"
  let ?ls0 = "replicate N [?z]"
  have "\<exists>ls'. append_items ?ls0 targets = Inr ls'"
    using assms(2) by (intro append_items_total) simp
  then obtain ls' where app: "append_items ?ls0 targets = Inr ls'" ..
  from append_items_spec[OF app]
  have len: "length ls' = N"
    and rows: "\<And>k. k < N \<Longrightarrow> ls' ! k = [?z] @ map item_tail (image_rows N targets k)"
    by simp_all
  have lens: "\<And>k. k < N \<Longrightarrow> length (ls' ! k) = Suc (gt_count N targets k)"
    by (simp add: rows gt_count_def)
  from assms(1) len have "map length ls' \<noteq> []" by auto
  then obtain m where m: "py_max (map length ls') = Inr m"
    by (cases "map length ls'") auto
  from py_max_spec[OF m] have upper: "\<forall>y\<in>set (map length ls'). y \<le> m"
    and mem: "m \<in> set (map length ls')" by simp_all
  from mem obtain k0 where k0: "k0 < N" and mk0: "m = length (ls' ! k0)"
    using len by (auto simp: in_set_conv_nth)
  define M where "M = m - 1"
  have mM: "m = Suc M" using mk0 lens[OF k0] by (simp add: M_def)
  have le: "\<forall>k<N. gt_count N targets k \<le> M"
  proof (intro allI impI)
    fix k assume k: "k < N"
    then have "length (ls' ! k) \<in> set (map length ls')" using len by auto
    with upper have "length (ls' ! k) \<le> m" by blast
    then show "gt_count N targets k \<le> M" using lens[OF k] mM by simp
  qed
  have ex: "\<exists>k<N. gt_count N targets k = M"
    using k0 mk0 lens[OF k0] mM by auto
  let ?out = "map (\<lambda>l. map (to_abs_xyxy scale_tensor)
                       (tl (l @ replicate (m - length l) sentinel_row))) ls'"
  have pre: "preprocess targets N scale_tensor = Inr ?out"
    by (simp add: preprocess_def app m)
  have nth: "\<forall>k<N. ?out ! k =
              map (\<lambda>item. to_abs_xyxy scale_tensor (item_tail item)) (image_rows N targets k)
              @ replicate (M - gt_count N targets k) sentinel_row"
  proof (intro allI impI)
    fix k assume k: "k < N"
    have "?out ! k = map (to_abs_xyxy scale_tensor)
                       (tl (ls' ! k @ replicate (m - length (ls' ! k)) sentinel_row))"
      using k len by simp
    also have "\<dots> = map (to_abs_xyxy scale_tensor)
                       (map item_tail (image_rows N targets k)
                        @ replicate (M - gt_count N targets k) sentinel_row)"
      using rows[OF k] lens[OF k] mM by simp
    also have "\<dots> = map (\<lambda>item. to_abs_xyxy scale_tensor (item_tail item)) (image_rows N targets k)
              @ replicate (M - gt_count N targets k) sentinel_row"
      by (simp add: to_abs_xyxy_sentinel comp_def)
    finally show "?out ! k = map (\<lambda>item. to_abs_xyxy scale_tensor (item_tail item)) (image_rows N targets k)
              @ replicate (M - gt_count N targets k) sentinel_row" .
  qed
  show ?thesis using pre len le ex nth by (intro exI[of _ ?out] exI[of _ M]) simp
qed


lemma example_row_slot: "slot 2 example_row = Inr 0"
  by (simp add: slot_def list_index_def py_int_def example_row_def)

text \<open>The theorem at the spec's scenario: two images, one box in the first.\<close>

theorem preprocess_padded_rows_witness:
  "(0::nat) < 2 \<and> slot 2 example_row = Inr 0 \<and>
   (\<exists>out M. preprocess [example_row] 2 (640, 640, 640, 640) = Inr out \<and> length out = 2 \<and>
           (\<forall>k<2. gt_count 2 [example_row] k \<le> M) \<and> (\<exists>k<2. gt_count 2 [example_row] k = M) \<and>
           (\<forall>k<2. out ! k =
              map (\<lambda>item. to_abs_xyxy (640, 640, 640, 640) (item_tail item)) (image_rows 2 [example_row] k)
              @ replicate (M - gt_count 2 [example_row] k) sentinel_row))"
  using preprocess_padded_rows[of 2 "[example_row]" "(640, 640, 640, 640)"] example_row_slot
  by simp

text \<open>
  Claim C5 as stated fails: in a batch of one image and no target row, the image has no
  ground truth and gets no sentinel row, the result has shape \<open>(1, 0, 5)\<close>.
\<close>

theorem preprocess_empty_batch_no_sentinel:
  "preprocess [] 1 (640, 640, 640, 640) = Inr [[]]"
  by (simp add: preprocess_def)

text \<open>The padded tensor of the scenario.\<close>

lemma preprocess_scenario_value: "preprocess [example_row] 2 (640, 640, 640, 640) = Inr [[(3, 256, 256, 384, 384)], [(-1, 0, 0, 0, 0)]]"
  by (simp add: preprocess_def numeral_2_eq_2 slot_def list_index_def py_int_def example_row_def item_tail_def sentinel_row_def)


subsection \<open>Normalisation of the classification loss\<close>

text \<open>
  Claim C3. \<^verbatim>\<open>ComputeLoss\<close> divides the classification loss by
  \<^verbatim>\<open>target_scores_sum\<close> exactly when the sum is greater than 1, \<^verbatim>\<open>ComputeLoss1\<close>
  exactly when it is greater than 0, and both return the loss as it is otherwise. The
  divisor is never zero: the result of either is finite for every finite loss and sum.
\<close>

theorem cls_normalization_guarded:
  "ComputeLoss_normalize_cls (Fin l) s = (if s > 1 then Fin (l / s) else Fin l) \<and>
   ComputeLoss1_normalize_cls (Fin l) s = (if s > 0 then Fin (l / s) else Fin l) \<and>
   is_finite (ComputeLoss_normalize_cls (Fin l) s) \<and>
   is_finite (ComputeLoss1_normalize_cls (Fin l) s)"
  by (simp add: ComputeLoss_normalize_cls_def ComputeLoss1_normalize_cls_def)

subsection \<open>The concrete step\<close>

lemma example_prepare:
  "loss_prepare example_cfg example_env example_outputs example_targets = Inr example_locals"
  by (simp add: loss_prepare_def example_cfg_def ComputeLoss_defaults_def example_env_def
      example_outputs_def example_targets_def example_locals_def preprocess_def slot_def
      list_index_def py_int_def example_row_def item_tail_def sentinel_row_def
      div_points_def bbox_decode_def bbox_decode_anchor_def view4_def softmax_def proj_def
      matmul_def gt_labels_row_def gt_bboxes_row_def mask_gt_row_def Let_def)

subsection \<open>The choice of the assigner\<close>



lemma invocations_append: "invocations (xs @ ys) = invocations xs @ invocations ys"
  by (induction xs rule: invocations.induct) simp_all

lemma assign_primary_events:
  "fst (assign_primary cfg ev e lc) = [Invoke (scheduled cfg e)]"
  by (simp add: assign_primary_def scheduled_def)

lemma assign_host_events:
  "fst (assign_host cfg ev e lc) = [Invoke (scheduled cfg e)]"
  by (simp add: assign_host_def scheduled_def)







lemma loss_prepare_env:
  "loss_prepare cfg (ev\<lparr>formal_assigner := F\<rparr>) outputs targets = loss_prepare cfg ev outputs targets"
  "loss_prepare cfg (ev\<lparr>warmup_assigner := W\<rparr>) outputs targets = loss_prepare cfg ev outputs targets"
  by (simp_all add: loss_prepare_def cong: prod.case_cong list.case_cong sum.case_cong if_cong)









subsection \<open>The retry on the host\<close>

lemma assign_step_cases:
  "(snd (assign_primary cfg ev e lc) = Inr a \<longrightarrow>
      assign_step cfg ev e lc = assign_primary cfg ev e lc) \<and>
   (snd (assign_primary cfg ev e lc) = Inl x \<and> is_RuntimeError x \<longrightarrow>
      assign_step cfg ev e lc =
        (fst (assign_primary cfg ev e lc) @ [Print, EmptyCache, Print] @ fst (assign_host cfg ev e lc),
         map_sum id to_cuda (snd (assign_host cfg ev e lc)))) \<and>
   (snd (assign_primary cfg ev e lc) = Inl x \<and> \<not> is_RuntimeError x \<longrightarrow>
      assign_step cfg ev e lc = assign_primary cfg ev e lc)"
proof -
  obtain evs r where p: "assign_primary cfg ev e lc = (evs, r)" by (cases "assign_primary cfg ev e lc")
  obtain evs' r' where h: "assign_host cfg ev e lc = (evs', r')" by (cases "assign_host cfg ev e lc")
  show ?thesis
    by (cases r; cases r') (simp_all add: assign_step_def p h)
qed

lemma host_tags:
  "dev (float (cpu t)) = Cpu \<and> dty (float (cpu t)) = Float32 \<and> dat (float (cpu t)) = dat t"
  by (simp add: float_def cpu_def)

lemma host_product:
  "dev (mul_stride (float (cpu (detach bbs))) (float (cpu st))) = Cpu \<and>
   dty (mul_stride (float (cpu (detach bbs))) (float (cpu st))) = Float32 \<and>
   dat (mul_stride (float (cpu (detach bbs))) (float (cpu st))) = dat (mul_stride (detach bbs) st)"
  by (simp add: mul_stride_def float_def cpu_def detach_def)

lemma to_cuda_tags:
  "dev (target_labels (to_cuda a)) = Cuda \<and> dev (target_bboxes (to_cuda a)) = Cuda \<and>
   dev (target_scores (to_cuda a)) = Cuda \<and> dev (fg_mask (to_cuda a)) = Cuda \<and>
   dat (target_labels (to_cuda a)) = dat (target_labels a) \<and>
   dat (target_bboxes (to_cuda a)) = dat (target_bboxes a) \<and>
   dat (target_scores (to_cuda a)) = dat (target_scores a) \<and>
   dat (fg_mask (to_cuda a)) = dat (fg_mask a)"
  by (simp add: to_cuda_def cuda_def)

lemma assign_host_result:
  "snd (assign_host cfg ev e lc) =
     (if e < warmup_epoch cfg then
        warmup_assigner ev (float (cpu (anchors lc))) (n_anchors_list lc)
           (float (cpu (gt_labels lc))) (float (cpu (gt_bboxes lc))) (float (cpu (mask_gt lc)))
           (mul_stride (float (cpu (detach (pred_bboxes lc)))) (float (cpu (stride_tensor lc))))
      else
        formal_assigner ev (float (cpu (detach (pred_scores lc))))
           (mul_stride (float (cpu (detach (pred_bboxes lc)))) (float (cpu (stride_tensor lc))))
           (float (cpu (anchor_points lc))) (float (cpu (gt_labels lc)))
           (float (cpu (gt_bboxes lc))) (float (cpu (mask_gt lc))))"
  by (simp add: assign_host_def)

lemma assign_primary_result:
  "snd (assign_primary cfg ev e lc) =
     (if e < warmup_epoch cfg then
        warmup_assigner ev (anchors lc) (n_anchors_list lc) (gt_labels lc) (gt_bboxes lc)
           (mask_gt lc) (mul_stride (detach (pred_bboxes lc)) (stride_tensor lc))
      else
        formal_assigner ev (detach (pred_scores lc))
           (mul_stride (detach (pred_bboxes lc)) (stride_tensor lc))
           (anchor_points lc) (gt_labels lc) (gt_bboxes lc) (mask_gt lc))"
  by (simp add: assign_primary_def)

lemma call_after_retry:
  assumes prep: "loss_prepare cfg ev outputs targets = Inr lc"
    and p: "snd (assign_primary cfg ev e lc) = Inl x" and x: "is_RuntimeError x"
  shows "(snd (assign_host cfg ev e lc) = Inr a \<longrightarrow>
            snd (ComputeLoss_call cfg ev outputs targets e s lam g) =
              ComputeLoss_tail cfg ev lc (to_cuda a) lam g \<and>
            snd (ComputeLoss1_call cfg ev outputs targets e s) =
              ComputeLoss1_tail cfg ev lc (to_cuda a)) \<and>
         (snd (assign_host cfg ev e lc) = Inl x' \<longrightarrow>
            snd (ComputeLoss_call cfg ev outputs targets e s lam g) = Inl x' \<and>
            snd (ComputeLoss1_call cfg ev outputs targets e s) = Inl x')"
proof -
  have st: "assign_step cfg ev e lc =
        (fst (assign_primary cfg ev e lc) @ [Print, EmptyCache, Print] @ fst (assign_host cfg ev e lc),
         map_sum id to_cuda (snd (assign_host cfg ev e lc)))"
    using assign_step_cases[of cfg ev e lc _ x] p x by blast
  show ?thesis
    by (simp add: ComputeLoss_call_def ComputeLoss1_call_def loss_front_def prep st)
qed

text \<open>
  Claim C2, as amended. When the assignment of a step raises an exception \<open>x\<close>:
  if \<open>x\<close> is a \<^verbatim>\<open>RuntimeError\<close> of any kind (out of memory is one), the composer
  prints, releases the accelerator cache, and calls the same assigner a second time on
  the same data, every tensor moved to the host in single precision; a result of that
  second call is moved to the accelerator and the step goes on with it, an exception
  of the second call leaves the step and nothing is tried again. If \<open>x\<close> is not a
  \<^verbatim>\<open>RuntimeError\<close> it leaves the step at once.
\<close>

theorem runtime_error_retried_on_host:
  assumes "loss_prepare cfg ev outputs targets = Inr lc"
    and "snd (assign_primary cfg ev e lc) = Inl x"
  shows "is_RuntimeError OutOfMemoryError \<and>
         (is_RuntimeError x \<longrightarrow>
            assign_step cfg ev e lc =
              (fst (assign_primary cfg ev e lc) @ [Print, EmptyCache, Print] @
                 fst (assign_host cfg ev e lc),
               map_sum id to_cuda (snd (assign_host cfg ev e lc))) \<and>
            invocations (fst (assign_step cfg ev e lc)) =
              (if e < warmup_epoch cfg then [Warmup, Warmup] else [Formal, Formal]) \<and>
            (snd (assign_host cfg ev e lc) = Inr a \<longrightarrow>
               snd (ComputeLoss_call cfg ev outputs targets e s lam g) =
                 ComputeLoss_tail cfg ev lc (to_cuda a) lam g \<and>
               snd (ComputeLoss1_call cfg ev outputs targets e s) =
                 ComputeLoss1_tail cfg ev lc (to_cuda a)) \<and>
            (snd (assign_host cfg ev e lc) = Inl x' \<longrightarrow>
               snd (ComputeLoss_call cfg ev outputs targets e s lam g) = Inl x' \<and>
               snd (ComputeLoss1_call cfg ev outputs targets e s) = Inl x')) \<and>
         (\<not> is_RuntimeError x \<longrightarrow>
            assign_step cfg ev e lc = assign_primary cfg ev e lc \<and>
            snd (ComputeLoss_call cfg ev outputs targets e s lam g) = Inl x \<and>
            snd (ComputeLoss1_call cfg ev outputs targets e s) = Inl x) \<and>
         snd (assign_primary cfg ev e lc) =
           (if e < warmup_epoch cfg then
              warmup_assigner ev (anchors lc) (n_anchors_list lc) (gt_labels lc) (gt_bboxes lc)
                (mask_gt lc) (mul_stride (detach (pred_bboxes lc)) (stride_tensor lc))
            else
              formal_assigner ev (detach (pred_scores lc))
                (mul_stride (detach (pred_bboxes lc)) (stride_tensor lc))
                (anchor_points lc) (gt_labels lc) (gt_bboxes lc) (mask_gt lc)) \<and>
         snd (assign_host cfg ev e lc) =
           (if e < warmup_epoch cfg then
              warmup_assigner ev (float (cpu (anchors lc))) (n_anchors_list lc)
                (float (cpu (gt_labels lc))) (float (cpu (gt_bboxes lc)))
                (float (cpu (mask_gt lc)))
                (mul_stride (float (cpu (detach (pred_bboxes lc))))
                   (float (cpu (stride_tensor lc))))
            else
              formal_assigner ev (float (cpu (detach (pred_scores lc))))
                (mul_stride (float (cpu (detach (pred_bboxes lc))))
                   (float (cpu (stride_tensor lc))))
                (float (cpu (anchor_points lc))) (float (cpu (gt_labels lc)))
                (float (cpu (gt_bboxes lc))) (float (cpu (mask_gt lc)))) \<and>
         dev (float (cpu t)) = Cpu \<and> dty (float (cpu t)) = Float32 \<and>
         dat (float (cpu t)) = dat t \<and>
         dev (mul_stride (float (cpu (detach bbs))) (float (cpu st))) = Cpu \<and>
         dty (mul_stride (float (cpu (detach bbs))) (float (cpu st))) = Float32 \<and>
         dat (mul_stride (float (cpu (detach bbs))) (float (cpu st))) =
           dat (mul_stride (detach bbs) st) \<and>
         dev (target_labels (to_cuda a)) = Cuda \<and> dev (target_bboxes (to_cuda a)) = Cuda \<and>
         dev (target_scores (to_cuda a)) = Cuda \<and> dev (fg_mask (to_cuda a)) = Cuda \<and>
         dat (target_labels (to_cuda a)) = dat (target_labels a) \<and>
         dat (target_bboxes (to_cuda a)) = dat (target_bboxes a) \<and>
         dat (target_scores (to_cuda a)) = dat (target_scores a) \<and>
         dat (fg_mask (to_cuda a)) = dat (fg_mask a)"
proof -
  have retry: "is_RuntimeError x \<Longrightarrow>
      assign_step cfg ev e lc =
        (fst (assign_primary cfg ev e lc) @ [Print, EmptyCache, Print] @ fst (assign_host cfg ev e lc),
         map_sum id to_cuda (snd (assign_host cfg ev e lc)))"
    using assign_step_cases[of cfg ev e lc a x] assms(2) by blast
  have inv: "is_RuntimeError x \<Longrightarrow> invocations (fst (assign_step cfg ev e lc)) =
              (if e < warmup_epoch cfg then [Warmup, Warmup] else [Formal, Formal])"
    by (simp add: retry invocations_append assign_primary_events assign_host_events scheduled_def)
  have passes: "\<not> is_RuntimeError x \<Longrightarrow> assign_step cfg ev e lc = assign_primary cfg ev e lc"
    using assign_step_cases[of cfg ev e lc a x] assms(2) by blast
  have surf: "\<not> is_RuntimeError x \<Longrightarrow>
            snd (ComputeLoss_call cfg ev outputs targets e s lam g) = Inl x \<and>
            snd (ComputeLoss1_call cfg ev outputs targets e s) = Inl x"
  proof -
    assume n: "\<not> is_RuntimeError x"
    obtain evs where "assign_primary cfg ev e lc = (evs, Inl x)"
      using assms(2) by (cases "assign_primary cfg ev e lc") simp
    then show ?thesis
      by (simp add: ComputeLoss_call_def ComputeLoss1_call_def loss_front_def assms(1) passes[OF n])
  qed
  have A: "is_RuntimeError OutOfMemoryError" by simp
  note B = retry inv call_after_retry[OF assms(1) assms(2), of a s lam g x']
  note C = passes surf
  note D = assign_primary_result[of cfg ev e lc] assign_host_result[of cfg ev e lc]
  note E = host_tags[of t] host_product[of bbs st] to_cuda_tags[of a]
  show ?thesis
    apply (intro conjI impI)
    using A B C D E by blast+
qed



lemma example_primary:
  "assign_primary example_cfg example_env 3 example_locals = ([Invoke Warmup], Inl OutOfMemoryError)"
  by (simp add: assign_primary_def example_cfg_def ComputeLoss_defaults_def example_env_def
      example_locals_def mul_stride_def detach_def)

lemma example_host:
  "assign_host example_cfg example_env 3 example_locals = ([Invoke Warmup], Inr example_assignment)"
  by (simp add: assign_host_def example_cfg_def ComputeLoss_defaults_def example_env_def
      example_locals_def mul_stride_def detach_def cpu_def float_def)

lemma invalid_prepare:
  "loss_prepare example_cfg invalid_env example_outputs example_targets = Inr example_locals"
  unfolding invalid_env_def loss_prepare_env by (rule example_prepare)

lemma invalid_primary:
  "assign_primary example_cfg invalid_env 3 example_locals = ([Invoke Warmup], Inl ValueError)"
  by (simp add: assign_primary_def example_cfg_def ComputeLoss_defaults_def example_env_def
      invalid_env_def)

text \<open>
  The theorem at the concrete step: out of memory on the accelerator is retried on the
  host, a \<^verbatim>\<open>ValueError\<close> is not.
\<close>

theorem runtime_error_retried_on_host_witness:
  "loss_prepare example_cfg example_env example_outputs example_targets = Inr example_locals \<and>
   snd (assign_primary example_cfg example_env 3 example_locals) = Inl OutOfMemoryError \<and>
   is_RuntimeError OutOfMemoryError \<and>
   assign_step example_cfg example_env 3 example_locals =
     ([Invoke Warmup, Print, EmptyCache, Print, Invoke Warmup], Inr (to_cuda example_assignment)) \<and>
   snd (ComputeLoss_call example_cfg example_env example_outputs example_targets 3 7 0 None) =
     ComputeLoss_tail example_cfg example_env example_locals (to_cuda example_assignment) 0 None \<and>
   snd (assign_primary example_cfg invalid_env 3 example_locals) = Inl ValueError \<and>
   \<not> is_RuntimeError ValueError \<and>
   assign_step example_cfg invalid_env 3 example_locals = ([Invoke Warmup], Inl ValueError) \<and>
   snd (ComputeLoss_call example_cfg invalid_env example_outputs example_targets 3 7 0 None) =
     Inl ValueError"
proof -
  have p: "snd (assign_primary example_cfg example_env 3 example_locals) = Inl OutOfMemoryError"
    by (simp add: example_primary)
  have q: "snd (assign_primary example_cfg invalid_env 3 example_locals) = Inl ValueError"
    by (simp add: invalid_primary)
  note T1 = runtime_error_retried_on_host[OF example_prepare p,
      of example_assignment 7 0 None ValueError, THEN conjunct2, THEN conjunct1]
  note T2 = runtime_error_retried_on_host[OF invalid_prepare q,
      of example_assignment 7 0 None ValueError, THEN conjunct2, THEN conjunct2, THEN conjunct1]
  have r1: "assign_step example_cfg example_env 3 example_locals =
     ([Invoke Warmup, Print, EmptyCache, Print, Invoke Warmup], Inr (to_cuda example_assignment))"
    using T1 by (simp add: example_primary example_host)
  have r2: "snd (ComputeLoss_call example_cfg example_env example_outputs example_targets 3 7 0 None) =
     ComputeLoss_tail example_cfg example_env example_locals (to_cuda example_assignment) 0 None"
    using T1 by (simp add: example_host)
  have r3: "assign_step example_cfg invalid_env 3 example_locals = ([Invoke Warmup], Inl ValueError)"
    using T2 by (simp add: invalid_primary)
  have r4: "snd (ComputeLoss_call example_cfg invalid_env example_outputs example_targets 3 7 0 None) =
     Inl ValueError"
    using T2 by simp
  show ?thesis
    using r1 r2 r3 r4 p q by (simp add: example_prepare)
qed

text \<open>
  Claim C2 as stated fails in "only for that specific error kind": a runtime error
  that is not an out-of-memory failure is caught and retried on the host all the same.
\<close>

theorem other_runtime_error_retried:
  "snd (assign_primary example_cfg mismatch_env 3 example_locals) = Inl RuntimeError \<and>
   RuntimeError \<noteq> OutOfMemoryError \<and>
   assign_step example_cfg mismatch_env 3 example_locals =
     ([Invoke Warmup, Print, EmptyCache, Print, Invoke Warmup], Inr (to_cuda example_assignment))"
  by (simp add: assign_step_def assign_primary_def assign_host_def example_cfg_def
      ComputeLoss_defaults_def example_env_def mismatch_env_def example_locals_def
      mul_stride_def detach_def cpu_def float_def)

subsection \<open>Varifocal loss\<close>

lemma sum_list_nth_lessThan:
  "length xs = n \<Longrightarrow> sum_list xs = (\<Sum>i<n. xs ! i)" for xs :: "real list"
  by (simp add: sum_list_sum_nth atLeast0LessThan)

lemma VarifocalLoss_bce_value:
  assumes "\<forall>p\<in>set (dat pred_score). 0 \<le> p \<and> p \<le> 1"
  shows "VarifocalLoss_bce ambient pred_score gt_score =
           Inr \<lparr>dev = dev pred_score, dty = Float32,
                dat = map2 bce (dat pred_score) (dat gt_score)\<rparr>"
proof -
  have "\<not> list_ex (\<lambda>p. p < 0 \<or> 1 < p) (dat pred_score)"
    using assms by (auto simp: list_ex_iff)
  then show ?thesis
    by (simp add: VarifocalLoss_bce_def binary_cross_entropy_def autocast_def float_def)
qed

text \<open>
  Claim C6. On \<open>n\<close> predicted scores in \<open>[0, 1]\<close>, with as many soft targets and
  labels, \<^verbatim>\<open>VarifocalLoss.forward\<close> returns the sum over all elements of
  \<open>weight \<times> bce(p, t)\<close> with
  \<open>weight = alpha \<times> p ^ gamma \<times> (1 - label) + t \<times> label\<close>; the composer calls it
  with \<open>alpha = 0.75\<close> and \<open>gamma = 2\<close>. The binary cross-entropy runs with autocast
  disabled on inputs cast to \<open>Float32\<close>, whatever the ambient autocast mode and the
  element types of the inputs are.
\<close>

theorem varifocal_loss_formula:
  assumes "length (dat pred_score) = n" and "length (dat gt_score) = n" and "length label = n"
    and "\<forall>p\<in>set (dat pred_score). 0 \<le> p \<and> p \<le> 1"
  shows "VarifocalLoss_forward ambient pred_score gt_score label alpha gamma =
           Inr (\<Sum>i<n. (alpha * (dat pred_score ! i) ^ gamma * (1 - of_int (label ! i))
                          + dat gt_score ! i * of_int (label ! i))
                        * bce (dat pred_score ! i) (dat gt_score ! i)) \<and>
         (\<exists>b. VarifocalLoss_bce ambient pred_score gt_score = Inr b \<and> dty b = Float32 \<and>
              dat b = map2 bce (dat pred_score) (dat gt_score)) \<and>
         varifocal_loss ambient pred_score gt_score label =
           VarifocalLoss_forward ambient pred_score gt_score label (3 / 4) 2"
proof -
  let ?ps = "dat pred_score" and ?ts = "dat gt_score"
  let ?w = "map (\<lambda>(p, t, l). varifocal_weight alpha gamma p t l) (zip ?ps (zip ?ts label))"
  let ?terms = "map2 (*) (map2 bce ?ps ?ts) ?w"
  have len: "length ?terms = n" using assms(1-3) by simp
  have nth: "\<And>i. i < n \<Longrightarrow> ?terms ! i =
      (alpha * (?ps ! i) ^ gamma * (1 - of_int (label ! i)) + ?ts ! i * of_int (label ! i))
        * bce (?ps ! i) (?ts ! i)"
    using assms(1-3) by (simp add: varifocal_weight_def)
  have "sum_list ?terms = (\<Sum>i<n. ?terms ! i)" by (rule sum_list_nth_lessThan[OF len])
  also have "\<dots> = (\<Sum>i<n. (alpha * (?ps ! i) ^ gamma * (1 - of_int (label ! i))
                          + ?ts ! i * of_int (label ! i)) * bce (?ps ! i) (?ts ! i))"
    by (rule sum.cong) (simp_all add: nth)
  finally have s: "sum_list ?terms = (\<Sum>i<n. (alpha * (?ps ! i) ^ gamma * (1 - of_int (label ! i))
                          + ?ts ! i * of_int (label ! i)) * bce (?ps ! i) (?ts ! i))" .
  have f: "VarifocalLoss_forward ambient pred_score gt_score label alpha gamma = Inr (sum_list ?terms)"
    by (simp add: VarifocalLoss_forward_def VarifocalLoss_bce_value[OF assms(4)])
  show ?thesis
    using f s VarifocalLoss_bce_value[OF assms(4), of ambient gt_score]
    by (simp add: varifocal_loss_def)
qed



lemma ln2_small: "ln (2::real) < 100"
proof -
  have "ln (2::real) < 2" by (rule ln_less_self) simp
  also have "(2::real) < 100" by simp
  finally show ?thesis .
qed

lemma bce_values: "bce 1 1 = 0" "bce (1 / 2) 0 = ln 2"
  using ln2_small by (simp_all add: bce_def clamped_log_def ln_div max_def)

text \<open>The theorem on two half-precision scores under ambient autocast.\<close>

theorem varifocal_loss_formula_witness:
  "length (dat example_pred_score) = 2 \<and> length (dat example_gt_score) = 2 \<and>
   length [0, 1 :: int] = 2 \<and>
   list_all (\<lambda>p. 0 \<le> p \<and> p \<le> 1) (dat example_pred_score) \<and>
   varifocal_loss True example_pred_score example_gt_score [0, 1] = Inr (3 / 16 * ln 2) \<and>
   (\<exists>b. VarifocalLoss_bce True example_pred_score example_gt_score = Inr b \<and> dty b = Float32)"
proof -
  have r: "\<forall>p\<in>set (dat example_pred_score). 0 \<le> p \<and> p \<le> 1"
    by (simp add: example_pred_score_def)
  have l: "length (dat example_pred_score) = 2" "length (dat example_gt_score) = 2"
    "length [0, 1 :: int] = 2"
    by (simp_all add: example_pred_score_def example_gt_score_def)
  note T = varifocal_loss_formula[OF l r, of True "3 / 4" 2]
  have "varifocal_loss True example_pred_score example_gt_score [0, 1] = Inr (3 / 16 * ln 2)"
    using T by (simp add: example_pred_score_def example_gt_score_def bce_values
        lessThan_Suc numeral_2_eq_2 power2_eq_square)
  then show ?thesis using T l by (auto simp: example_pred_score_def)
qed

subsection \<open>Distribution-focal loss\<close>

lemma to_long_nonneg: "0 \<le> t \<Longrightarrow> to_long t = \<lfloor>t\<rfloor>"
  by (simp add: to_long_def py_int_def)

lemma to_long_ge0_iff: "0 \<le> to_long t \<longleftrightarrow> - 1 < t"
proof (cases "0 \<le> t")
  case True
  then show ?thesis by (simp add: to_long_def py_int_def)
next
  case False
  then have "(0 \<le> \<lceil>t\<rceil>) = (- 1 < t)" by (simp add: le_ceiling_iff)
  with False show ?thesis by (simp add: to_long_def py_int_def)
qed

lemma to_long_less_iff: "0 < n \<Longrightarrow> to_long t < int n \<longleftrightarrow> t < real n"
proof (cases "0 \<le> t")
  case True
  have "(\<lfloor>t\<rfloor> < int n) = (t < real n)" by (simp add: floor_less_iff)
  with True show ?thesis by (simp add: to_long_def py_int_def)
next
  case False
  assume n: "0 < n"
  from False have "\<lceil>t\<rceil> \<le> 0" by (simp add: ceiling_le_iff)
  then have "\<lceil>t\<rceil> < int n" using n by linarith
  moreover have "t < real n" using False n by linarith
  ultimately show ?thesis using False by (simp add: to_long_def py_int_def)
qed

lemma df_side_ok_iff:
  "(\<exists>v. df_side logits t = Inr v) \<longleftrightarrow>
     0 \<le> to_long t \<and> to_long t + 1 < int (length logits)"
  by (auto simp: df_side_def cross_entropy_def Let_def split: sum.splits if_splits)

lemma df_side_defined_iff:
  assumes "length logits = rmax + 1" and "0 < rmax"
  shows "(\<exists>v. df_side logits t = Inr v) \<longleftrightarrow> - 1 < t \<and> t < real rmax"
  using assms to_long_ge0_iff[of t] to_long_less_iff[of rmax t]
  by (simp add: df_side_ok_iff)

lemma df_side_upper_fails:
  assumes "length logits = rmax + 1" and "0 \<le> t" and "real rmax \<le> t"
  shows "df_side logits t = Inl IndexError"
proof -
  have "int rmax \<le> \<lfloor>t\<rfloor>" using assms(3) by (simp add: le_floor_iff)
  moreover have "0 \<le> \<lfloor>t\<rfloor>" using assms(2) by simp
  ultimately show ?thesis
    using assms(1,2) by (simp add: df_side_def cross_entropy_def Let_def to_long_nonneg)
qed

lemma df_side_formula:
  assumes "length logits = rmax + 1" and "0 \<le> t" and "t < real rmax"
  shows "df_side logits t =
           Inr ((ln (\<Sum>x\<leftarrow>logits. exp x) - logits ! nat \<lfloor>t\<rfloor>) * (of_int \<lfloor>t\<rfloor> + 1 - t) +
                (ln (\<Sum>x\<leftarrow>logits. exp x) - logits ! (nat \<lfloor>t\<rfloor> + 1)) * (1 - (of_int \<lfloor>t\<rfloor> + 1 - t)))"
proof -
  define k where "k = \<lfloor>t\<rfloor>"
  have f0: "0 \<le> k" using assms(2) by (simp add: k_def)
  have f1: "k < int rmax" using assms(3) by (simp add: k_def floor_less_iff)
  have n: "nat (k + 1) = nat k + 1" using f0 by (simp add: nat_add_distrib)
  have tl: "to_long t = k" using assms(2) by (simp add: to_long_nonneg k_def)
  have "df_side logits t =
           Inr ((ln (\<Sum>x\<leftarrow>logits. exp x) - logits ! nat k) * (of_int k + 1 - t) +
                (ln (\<Sum>x\<leftarrow>logits. exp x) - logits ! (nat k + 1)) * (1 - (of_int k + 1 - t)))"
    using assms(1) f0 f1 n by (simp add: df_side_def cross_entropy_def Let_def tl)
  then show ?thesis by (simp add: k_def)
qed

lemma clip_range: "0 < eps \<Longrightarrow> eps \<le> real rmax \<Longrightarrow>
  0 \<le> clip 0 (real rmax - eps) x \<and> clip 0 (real rmax - eps) x \<le> real rmax - eps \<and>
  clip 0 (real rmax - eps) x < real rmax"
  by (simp add: clip_def min_def max_def)

lemma rmax_pos: "0 < eps \<Longrightarrow> eps \<le> real rmax \<Longrightarrow> 0 < rmax"
  by (cases rmax) simp_all

lemma df_side_clipped:
  assumes "length logits = rmax + 1" and "0 < eps" and "eps \<le> real rmax"
  shows "\<exists>v. df_side logits (clip 0 (real rmax - eps) x) = Inr v"
proof -
  have "0 < rmax" using assms(2,3) by (rule rmax_pos)
  from df_side_defined_iff[OF assms(1) this] clip_range[OF assms(2,3), of x]
  show ?thesis by auto
qed

lemma BboxLoss_df_loss_sides:
  assumes "df_side dl l = Inr a" and "df_side dt t = Inr b" and "df_side dr r = Inr c"
    and "df_side db bb = Inr d"
  shows "BboxLoss_df_loss (dl, dt, dr, db) (l, t, r, bb) = Inr ((a + b + c + d) / 4)"
  using assms by simp

lemma BboxLoss_df_loss_clipped:
  assumes "length dl = rmax + 1" and "length dt = rmax + 1" and "length dr = rmax + 1"
    and "length db = rmax + 1" and "0 < eps" and "eps \<le> real rmax"
  shows "\<exists>v. BboxLoss_df_loss (dl, dt, dr, db) (bbox2dist eps p b rmax) = Inr v"
proof -
  obtain x y where p: "p = (x, y)" by (cases p)
  obtain x1 y1 x2 y2 where b: "b = (x1, y1, x2, y2)" by (cases b)
  from df_side_clipped[OF assms(1) assms(5,6), of "x - x1"]
       df_side_clipped[OF assms(2) assms(5,6), of "y - y1"]
       df_side_clipped[OF assms(3) assms(5,6), of "x2 - x"]
       df_side_clipped[OF assms(4) assms(5,6), of "y2 - y"]
  obtain a b' c d where
    "df_side dl (clip 0 (real rmax - eps) (x - x1)) = Inr a"
    "df_side dt (clip 0 (real rmax - eps) (y - y1)) = Inr b'"
    "df_side dr (clip 0 (real rmax - eps) (x2 - x)) = Inr c"
    "df_side db (clip 0 (real rmax - eps) (y2 - y)) = Inr d"
    by blast
  then have "BboxLoss_df_loss (dl, dt, dr, db)
               (clip 0 (real rmax - eps) (x - x1), clip 0 (real rmax - eps) (y - y1),
                clip 0 (real rmax - eps) (x2 - x), clip 0 (real rmax - eps) (y2 - y)) =
             Inr ((a + b' + c + d) / 4)"
    by (rule BboxLoss_df_loss_sides)
  then show ?thesis unfolding p b bbox2dist.simps by blast
qed


text \<open>
  Claim C10, as amended. \<^verbatim>\<open>_df_loss\<close> takes the class indices \<open>trunc(t)\<close> and
  \<open>trunc(t) + 1\<close>, rounding toward zero, into a cross-entropy over \<open>reg_max + 1\<close>
  classes. For \<open>reg_max \<ge> 1\<close> one side returns a value exactly when
  \<open>-1 < t < reg_max\<close>. For \<open>t \<ge> 0\<close> the lower index is \<open>floor(t)\<close> and the upper
  index leaves the range, raising, as soon as \<open>t \<ge> reg_max\<close>. The distances of
  \<^verbatim>\<open>bbox2dist\<close> lie in \<open>[0, reg_max - epsilon]\<close>, so \<^verbatim>\<open>_df_loss\<close> returns a value
  on them.
\<close>

theorem df_loss_defined_range:
  assumes "length logits = rmax + 1" and "0 < rmax"
  shows "((\<exists>v. df_side logits t = Inr v) \<longleftrightarrow> - 1 < t \<and> t < real rmax) \<and>
         (0 \<le> t \<longrightarrow> to_long t = \<lfloor>t\<rfloor>) \<and>
         (0 \<le> t \<and> real rmax \<le> t \<longrightarrow> df_side logits t = Inl IndexError) \<and>
         (0 < eps \<and> eps \<le> real rmax \<longrightarrow>
            list_all (\<lambda>d. 0 \<le> d \<and> d \<le> real rmax - eps \<and> d < real rmax)
              (box_list (bbox2dist eps p b rmax)) \<and>
            (\<exists>v. BboxLoss_df_loss (logits, logits, logits, logits) (bbox2dist eps p b rmax) = Inr v))"
proof -
  have clipped: "0 < eps \<and> eps \<le> real rmax \<Longrightarrow>
            list_all (\<lambda>d. 0 \<le> d \<and> d \<le> real rmax - eps \<and> d < real rmax)
              (box_list (bbox2dist eps p b rmax))"
  proof -
    assume e: "0 < eps \<and> eps \<le> real rmax"
    obtain x y where p: "p = (x, y)" by (cases p)
    obtain x1 y1 x2 y2 where b: "b = (x1, y1, x2, y2)" by (cases b)
    show ?thesis
      using clip_range[of eps rmax] e by (simp add: p b)
  qed
  show ?thesis
    using df_side_defined_iff[OF assms, of t] to_long_nonneg[of t]
      df_side_upper_fails[OF assms(1), of t] clipped
      BboxLoss_df_loss_clipped[OF assms(1) assms(1) assms(1) assms(1), of eps p b]
    by blast
qed

text \<open>
  Claim C10 as stated fails below zero: the index of \<open>t = -1/2\<close> is \<open>0\<close>, not
  \<open>floor(t) = -1\<close>, both indices are in range and the loss has a value although
  \<open>0 \<le> t\<close> does not hold.
\<close>

theorem truncation_admits_negative_distance:
  "to_long (- (1 / 2)) = 0 \<and> \<lfloor>- (1 / 2) :: real\<rfloor> = - 1 \<and>
   df_side [0, 0] (- (1 / 2)) = Inr (ln 2)"
proof -
  have c: "\<lceil>- (1 / 2) :: real\<rceil> = 0" by (rule ceiling_unique) simp_all
  have f: "\<lfloor>- (1 / 2) :: real\<rfloor> = - 1" by (rule floor_unique) simp_all
  have t: "to_long (- (1 / 2)) = 0" using c by (simp add: to_long_def py_int_def)
  have "df_side [0, 0] (- (1 / 2)) = Inr (ln 2)"
    by (simp add: df_side_def cross_entropy_def Let_def t algebra_simps)
  then show ?thesis using t f by simp
qed

lemma cross_entropy_in_range:
  assumes "0 \<le> c" and "c < int (length logits)"
  shows "cross_entropy logits c = Inr (ln (\<Sum>x\<leftarrow>logits. exp x) - logits ! nat c)"
  using assms by (simp add: cross_entropy_def)

lemma BboxLoss_normalize_eq:
  "BboxLoss_normalize xs s = (if s > 1 then Fin (sum_list xs / s) else Fin (sum_list xs))"
  by (simp add: BboxLoss_normalize_def)

lemma BboxLoss_forward_dfl:
  assumes "use_dfl cfg" and "num_pos fg > 0"
    and "BboxLoss_forward cfg ev pd pb ap tb ts tss fg = Inr (li, ld)"
  shows "\<exists>pos losses.
           collect (map (view4 (reg_max cfg)) (masked_select fg pd)) = Inr pos \<and>
           collect (map2 BboxLoss_df_loss pos
                      (masked_select fg
                         (map (\<lambda>img. map2 (\<lambda>p b. bbox2dist (dist_eps ev) p b (reg_max cfg)) ap img) tb)))
             = Inr losses \<and>
           ld = BboxLoss_normalize (map2 (*) losses (masked_select fg (map (map sum_list) ts))) tss"
  using assms
  by (auto simp: BboxLoss_forward_def BboxLoss_dfl_def Let_def split: sum.splits)

lemma example_box_losses:
  "box_losses example_cfg example_env example_locals (to_cuda example_assignment) =
     Inr (Fin (1 / 4), Fin (ln 2 / 2))"
  by (simp add: box_losses_def BboxLoss_forward_def BboxLoss_dfl_def BboxLoss_normalize_def
      example_cfg_def ComputeLoss_defaults_def example_env_def example_locals_def
      example_assignment_def to_cuda_def cuda_def div_stride_def target_scores_sum_def
      num_pos_def masked_select_def view4_def clip_def Let_def
      df_side_def cross_entropy_def to_long_def py_int_def)

text \<open>The theorem with two bins per side and the epsilon \<open>1/100\<close>.\<close>

theorem df_loss_defined_range_witness:
  "length [0, 0 :: real] = 1 + 1 \<and> (0::nat) < 1 \<and>
   (\<exists>v. df_side [0, 0] (1 / 2) = Inr v) \<and>
   df_side [0, 0] 1 = Inl IndexError \<and>
   (0::real) < 1 / 100 \<and> (1 / 100 :: real) \<le> real (1::nat) \<and>
   bbox2dist (1 / 100) (1 / 2, 1 / 2) (0, 0, 3, 3) 1 = (1 / 2, 1 / 2, 99 / 100, 99 / 100) \<and>
   (\<exists>v. BboxLoss_df_loss ([0, 0], [0, 0], [0, 0], [0, 0])
          (bbox2dist (1 / 100) (1 / 2, 1 / 2) (0, 0, 3, 3) 1) = Inr v)"
proof -
  have l: "length [0, 0 :: real] = 1 + 1" by simp
  have r: "(0::nat) < 1" by simp
  note T = df_loss_defined_range[OF l r]
  have a: "\<exists>v. df_side [0, 0] (1 / 2) = Inr v"
    using T[of "1 / 2", THEN conjunct1] by simp
  have b: "df_side [0, 0] 1 = Inl IndexError"
    using T[of 1, THEN conjunct2, THEN conjunct2, THEN conjunct1] by simp
  have c: "\<exists>v. BboxLoss_df_loss ([0, 0], [0, 0], [0, 0], [0, 0])
          (bbox2dist (1 / 100) (1 / 2, 1 / 2) (0, 0, 3, 3) 1) = Inr v"
    using T[of 0 "1 / 100" "(1 / 2, 1 / 2)" "(0, 0, 3, 3)", THEN conjunct2, THEN conjunct2, THEN conjunct2]
    by simp
  show ?thesis using a b c by (simp add: clip_def)
qed

text \<open>
  Claim C7, as amended. For a target distance \<open>0 \<le> t < reg_max\<close> the loss of one side
  is the cross-entropy against the lower bin \<open>floor(t)\<close> times \<open>(upper bin - t)\<close> plus
  the cross-entropy against the upper bin times one minus that weight; an anchor's loss
  is the mean of its four sides; \<^verbatim>\<open>BboxLoss.forward\<close> multiplies it by the anchor's
  total target score, sums over the positive anchors and divides by
  \<^verbatim>\<open>target_scores_sum\<close> exactly when that sum is greater than 1. That is the threshold
  of the classification loss in \<^verbatim>\<open>ComputeLoss\<close>; \<^verbatim>\<open>ComputeLoss1\<close> normalises the
  classification loss above 0.
\<close>

theorem dfl_formula_and_normalization:
  assumes "length logits = rmax + 1" and "0 \<le> t" and "t < real rmax"
  shows "(\<exists>cl cr. cross_entropy logits \<lfloor>t\<rfloor> = Inr cl \<and>
                  cross_entropy logits (\<lfloor>t\<rfloor> + 1) = Inr cr \<and>
                  df_side logits t =
                    Inr (cl * (of_int (\<lfloor>t\<rfloor> + 1) - t) + cr * (1 - (of_int (\<lfloor>t\<rfloor> + 1) - t)))) \<and>
         (df_side dl l = Inr a \<and> df_side dt tt = Inr b \<and> df_side dr r = Inr c \<and>
          df_side db bb = Inr d \<longrightarrow>
            BboxLoss_df_loss (dl, dt, dr, db) (l, tt, r, bb) = Inr ((a + b + c + d) / 4)) \<and>
         (use_dfl cfg \<and> num_pos fg > 0 \<and>
          BboxLoss_forward cfg ev pd pb ap tb ts tss fg = Inr (li, ld) \<longrightarrow>
            (\<exists>pos losses.
               collect (map (view4 (reg_max cfg)) (masked_select fg pd)) = Inr pos \<and>
               collect (map2 BboxLoss_df_loss pos
                          (masked_select fg
                             (map (\<lambda>img. map2 (\<lambda>p b. bbox2dist (dist_eps ev) p b (reg_max cfg)) ap img)
                                  tb)))
                 = Inr losses \<and>
               ld = BboxLoss_normalize
                      (map2 (*) losses (masked_select fg (map (map sum_list) ts))) tss)) \<and>
         BboxLoss_normalize xs s = (if s > 1 then Fin (sum_list xs / s) else Fin (sum_list xs)) \<and>
         ComputeLoss_normalize_cls (Fin x) s = (if s > 1 then Fin (x / s) else Fin x) \<and>
         ComputeLoss1_normalize_cls (Fin x) s = (if s > 0 then Fin (x / s) else Fin x)"
proof -
  have f0: "0 \<le> \<lfloor>t\<rfloor>" using assms(2) by simp
  have f1: "\<lfloor>t\<rfloor> + 1 < int (length logits)"
    using assms(1,3) by (simp add: floor_less_iff)
  have n: "nat (\<lfloor>t\<rfloor> + 1) = nat \<lfloor>t\<rfloor> + 1" using f0 by (simp add: nat_add_distrib)
  have cl: "cross_entropy logits \<lfloor>t\<rfloor> = Inr (ln (\<Sum>x\<leftarrow>logits. exp x) - logits ! nat \<lfloor>t\<rfloor>)"
    using f0 f1 by (intro cross_entropy_in_range) linarith+
  have cr: "cross_entropy logits (\<lfloor>t\<rfloor> + 1) =
              Inr (ln (\<Sum>x\<leftarrow>logits. exp x) - logits ! (nat \<lfloor>t\<rfloor> + 1))"
    using cross_entropy_in_range[of "\<lfloor>t\<rfloor> + 1" logits] f0 f1 n by simp
  have side: "\<exists>cl cr. cross_entropy logits \<lfloor>t\<rfloor> = Inr cl \<and>
                  cross_entropy logits (\<lfloor>t\<rfloor> + 1) = Inr cr \<and>
                  df_side logits t =
                    Inr (cl * (of_int (\<lfloor>t\<rfloor> + 1) - t) + cr * (1 - (of_int (\<lfloor>t\<rfloor> + 1) - t)))"
    using cl cr df_side_formula[OF assms] by simp
  have anchor: "df_side dl l = Inr a \<and> df_side dt tt = Inr b \<and> df_side dr r = Inr c \<and>
          df_side db bb = Inr d \<longrightarrow>
            BboxLoss_df_loss (dl, dt, dr, db) (l, tt, r, bb) = Inr ((a + b + c + d) / 4)"
    using BboxLoss_df_loss_sides[of dl l a dt tt b dr r c db bb d] by blast
  have fwd: "use_dfl cfg \<and> num_pos fg > 0 \<and>
          BboxLoss_forward cfg ev pd pb ap tb ts tss fg = Inr (li, ld) \<longrightarrow>
            (\<exists>pos losses.
               collect (map (view4 (reg_max cfg)) (masked_select fg pd)) = Inr pos \<and>
               collect (map2 BboxLoss_df_loss pos
                          (masked_select fg
                             (map (\<lambda>img. map2 (\<lambda>p b. bbox2dist (dist_eps ev) p b (reg_max cfg)) ap img)
                                  tb)))
                 = Inr losses \<and>
               ld = BboxLoss_normalize
                      (map2 (*) losses (masked_select fg (map (map sum_list) ts))) tss)"
    using BboxLoss_forward_dfl[of cfg fg ev pd pb ap tb ts tss li ld] by blast
  have norm: "BboxLoss_normalize xs s = (if s > 1 then Fin (sum_list xs / s) else Fin (sum_list xs))"
    by (rule BboxLoss_normalize_eq)
  have c0: "ComputeLoss_normalize_cls (Fin x) s = (if s > 1 then Fin (x / s) else Fin x)"
    by (simp add: ComputeLoss_normalize_cls_def)
  have c1: "ComputeLoss1_normalize_cls (Fin x) s = (if s > 0 then Fin (x / s) else Fin x)"
    by (simp add: ComputeLoss1_normalize_cls_def)
  show ?thesis
    apply (intro conjI)
    using side anchor fwd norm c0 c1 by blast+
qed

lemma example_df_side: "df_side [0, 0] (1 / 2) = Inr (ln 2)"
proof -
  have f: "\<lfloor>1 / 2 :: real\<rfloor> = 0" by (rule floor_unique) simp_all
  have t: "to_long (1 / 2) = 0" using f by (simp add: to_long_def py_int_def)
  show ?thesis by (simp add: df_side_def cross_entropy_def Let_def t algebra_simps)
qed

text \<open>The theorem at the concrete step, where the one positive anchor has all distances \<open>1/2\<close>.\<close>

theorem dfl_formula_and_normalization_witness:
  "length [0, 0 :: real] = 1 + 1 \<and> (0::real) \<le> 1 / 2 \<and> (1 / 2 :: real) < real (1::nat) \<and>
   df_side [0, 0] (1 / 2) = Inr (ln 2) \<and>
   BboxLoss_df_loss ([0, 0], [0, 0], [0, 0], [0, 0]) (1 / 2, 1 / 2, 1 / 2, 1 / 2) = Inr (ln 2) \<and>
   use_dfl example_cfg \<and>
   box_losses example_cfg example_env example_locals (to_cuda example_assignment) =
     Inr (Fin (1 / 4), Fin (ln 2 / 2)) \<and>
   BboxLoss_normalize [ln 2 * (1 / 2)] (1 / 2) = Fin (ln 2 / 2)"
proof -
  have l: "length [0, 0 :: real] = 1 + 1" by simp
  have t0: "(0::real) \<le> 1 / 2" by simp
  have t1: "(1 / 2 :: real) < real (1::nat)" by simp
  note T = dfl_formula_and_normalization[OF l t0 t1]
  have a: "BboxLoss_df_loss ([0, 0], [0, 0], [0, 0], [0, 0]) (1 / 2, 1 / 2, 1 / 2, 1 / 2) = Inr (ln 2)"
    using T[of "[0, 0]" "1 / 2" "ln 2" "[0, 0]" "1 / 2" "ln 2" "[0, 0]" "1 / 2" "ln 2" "[0, 0]" "1 / 2" "ln 2",
        THEN conjunct2, THEN conjunct1] example_df_side
    by simp
  have n: "BboxLoss_normalize [ln 2 * (1 / 2)] (1 / 2) = Fin (ln 2 / 2)"
    using T[THEN conjunct2, THEN conjunct2, THEN conjunct2, THEN conjunct1,
        of "[ln 2 * (1 / 2)]" "1 / 2"]
    by simp
  have u: "use_dfl example_cfg" by (simp add: example_cfg_def ComputeLoss_defaults_def)
  show ?thesis using a n u example_df_side example_box_losses by simp
qed

text \<open>
  Claim C7 as stated fails for \<^verbatim>\<open>ComputeLoss1\<close>: at a target score sum of \<open>1/2\<close> its
  classification loss is divided by the sum and the box loss sums are not.
\<close>

theorem dfl_threshold_differs_from_ComputeLoss1:
  "ComputeLoss1_normalize_cls (Fin 1) (1 / 2) = Fin 2 \<and> BboxLoss_normalize [1] (1 / 2) = Fin 1"
  by (simp add: ComputeLoss1_normalize_cls_def BboxLoss_normalize_def)

subsection \<open>A batch without positive anchors\<close>











lemma example_formal_front:
  "loss_front example_cfg example_env example_outputs example_targets 5 7 =
     ([Invoke Formal], Inr (example_locals, background_assignment))"
proof -
  have "assign_step example_cfg example_env 5 example_locals =
          ([Invoke Formal], Inr background_assignment)"
    by (simp add: assign_step_def assign_primary_def example_cfg_def ComputeLoss_defaults_def
        example_env_def)
  then show ?thesis by (simp add: loss_front_def example_prepare)
qed


subsection \<open>The two composers compared\<close>

lemma normalize_cls_agree:
  "s > 1 \<or> s = 0 \<Longrightarrow> ComputeLoss_normalize_cls x s = ComputeLoss1_normalize_cls x s"
  by (auto simp: ComputeLoss_normalize_cls_def ComputeLoss1_normalize_cls_def)

lemma tails_agree:
  assumes "target_scores_sum a > 1 \<or> target_scores_sum a = 0"
  shows "ComputeLoss_tail cfg ev lc a lam None = ComputeLoss1_tail cfg ev lc a"
  unfolding ComputeLoss_tail_def ComputeLoss1_tail_def normalize_cls_agree[OF assms]
  by (simp add: Let_def split: sum.splits prod.splits)

text \<open>
  Claim C8. For one configuration, one environment and the same inputs,
  \<^verbatim>\<open>ComputeLoss\<close> called with \<^verbatim>\<open>gating_decision = None\<close> and \<^verbatim>\<open>ComputeLoss1\<close>
  have the same events and return the same total loss and component vector (or raise
  the same exception) whenever the \<^verbatim>\<open>target_scores_sum\<close> of the step is greater
  than 1 or equal to 0. The default configurations differ in the class and iou weights
  only.
\<close>

theorem composers_agree_without_gating:
  assumes "\<forall>evs lc a. loss_front cfg ev outputs targets e s = (evs, Inr (lc, a)) \<longrightarrow>
             target_scores_sum a > 1 \<or> target_scores_sum a = 0"
  shows "ComputeLoss_call cfg ev outputs targets e s lam None =
           ComputeLoss1_call cfg ev outputs targets e s \<and>
         ComputeLoss1_defaults =
           ComputeLoss_defaults\<lparr>loss_weight_class := 1, loss_weight_iou := 5 / 2\<rparr>"
proof -
  obtain evs r where f: "loss_front cfg ev outputs targets e s = (evs, r)"
    by (cases "loss_front cfg ev outputs targets e s")
  have "ComputeLoss_call cfg ev outputs targets e s lam None =
           ComputeLoss1_call cfg ev outputs targets e s"
  proof (cases r)
    case (Inl x)
    then show ?thesis by (simp add: ComputeLoss_call_def ComputeLoss1_call_def f)
  next
    case (Inr p)
    obtain lc a where p: "p = (lc, a)" by (cases p)
    have "target_scores_sum a > 1 \<or> target_scores_sum a = 0"
      using assms f Inr p by blast
    from tails_agree[OF this] show ?thesis
      by (simp add: ComputeLoss_call_def ComputeLoss1_call_def f Inr p)
  qed
  then show ?thesis by (simp add: ComputeLoss1_defaults_def ComputeLoss_defaults_def)
qed

text \<open>The theorem at the concrete step in epoch 5, where the sum is 0.\<close>

theorem composers_agree_without_gating_witness:
  "loss_front example_cfg example_env example_outputs example_targets 5 7 =
     ([Invoke Formal], Inr (example_locals, background_assignment)) \<and>
   target_scores_sum background_assignment = 0 \<and>
   ComputeLoss_call example_cfg example_env example_outputs example_targets 5 7 0 None =
     ComputeLoss1_call example_cfg example_env example_outputs example_targets 5 7"
proof -
  have z: "target_scores_sum background_assignment = 0"
    by (simp add: target_scores_sum_def background_assignment_def)
  have h: "\<forall>evs lc a. loss_front example_cfg example_env example_outputs example_targets 5 7 =
             (evs, Inr (lc, a)) \<longrightarrow> target_scores_sum a > 1 \<or> target_scores_sum a = 0"
    using z by (simp add: example_formal_front)
  show ?thesis
    using composers_agree_without_gating[OF h, of 0] z example_formal_front by simp
qed

lemma example_class_loss:
  "class_loss example_cfg example_env example_locals (to_cuda example_assignment) = Inr (ln 2 / 2)"
proof -
  have l: "ln (2::real) < 100"
  proof -
    have "ln (2::real) < 2" by (rule ln_less_self) simp
    also have "(2::real) < 100" by simp
    finally show ?thesis .
  qed
  have b: "bce (1 / 2) (1 / 2) = ln 2"
    using l by (simp add: bce_def clamped_log_def ln_div max_def)
  show ?thesis
    by (simp add: class_loss_def one_hot_label_def one_hot_def fill_background_def
        example_cfg_def ComputeLoss_defaults_def example_env_def example_locals_def
        example_assignment_def to_cuda_def cuda_def flatten3_def varifocal_loss_def
        VarifocalLoss_forward_def VarifocalLoss_bce_def binary_cross_entropy_def autocast_def
        float_def varifocal_weight_def b)
qed

lemma example_sum: "target_scores_sum (to_cuda example_assignment) = 1 / 2"
  by (simp add: target_scores_sum_def to_cuda_def cuda_def example_assignment_def)

text \<open>
  In epoch 3 of the concrete step the sum is \<open>1/2\<close>, between the two thresholds, and
  the two composers return different class terms.
\<close>

lemma composers_differ_between:
  "ComputeLoss_tail example_cfg example_env example_locals (to_cuda example_assignment) 0 None =
     Inr (Fin (13 / 10 * (ln 2 / 2) + 7 / 2 * (1 / 4) + 1 / 2 * (ln 2 / 2)),
          [Fin (7 / 2 * (1 / 4)), Fin (1 / 2 * (ln 2 / 2)), Fin (13 / 10 * (ln 2 / 2))]) \<and>
   ComputeLoss1_tail example_cfg example_env example_locals (to_cuda example_assignment) =
     Inr (Fin (13 / 10 * ln 2 + 7 / 2 * (1 / 4) + 1 / 2 * (ln 2 / 2)),
          [Fin (7 / 2 * (1 / 4)), Fin (1 / 2 * (ln 2 / 2)), Fin (13 / 10 * ln 2)])"
proof -
  have w: "loss_weight_class example_cfg = 13 / 10" "loss_weight_iou example_cfg = 7 / 2"
    "loss_weight_dfl example_cfg = 1 / 2"
    by (simp_all add: example_cfg_def ComputeLoss_defaults_def)
  show ?thesis
    by (simp add: ComputeLoss_tail_def ComputeLoss1_tail_def example_class_loss
        example_box_losses example_sum ComputeLoss_normalize_cls_def
        ComputeLoss1_normalize_cls_def total_loss_def loss_components_def w)
qed

end
